theory Spec2Isabelle
  imports Complex_Main "HOL-Library.Char_ord" "HOL-Library.List_Lexorder"
begin

section \<open>JavaScript values\<close>

text \<open>
  A JavaScript \<^verbatim>\<open>number\<close> is modelled by its exact rational value or one of the three
  special values; rounding to a 64-bit float and the sign of zero are not modelled.
  \<open>'a optional\<close> is a property that may be \<^verbatim>\<open>undefined\<close> (\<open>None\<close>), \<open>'a nullable\<close> a value
  that may be \<^verbatim>\<open>null\<close> (\<open>None\<close>).
\<close>

datatype number = Fin rat | NaN | PosInfinity | NegInfinity

type_synonym 'a optional = "'a option"
type_synonym 'a nullable = "'a option"

datatype json =
    JNull
  | JBool bool
  | JNumber number
  | JString string
  | JArray "json list"
  | JObject "(string \<times> json) list"

text \<open>Property access on a parsed JSON object; anything that is not an object has no properties.\<close>

fun getProp :: "json \<Rightarrow> string \<Rightarrow> json optional" where
  "getProp (JObject kvs) k = map_of kvs k"
| "getProp _ k = None"

subsection \<open>Strings\<close>

definition isWhiteSpace :: "char \<Rightarrow> bool" where
  "isWhiteSpace c \<longleftrightarrow> c \<in> set [CHR '' '', CHR 0x09, CHR 0x0A, CHR 0x0B, CHR 0x0C, CHR 0x0D]"

text \<open>\<^verbatim>\<open>String.prototype.trim\<close>, on the ASCII white space characters.\<close>

definition trim :: "string \<Rightarrow> string" where
  "trim s = rev (dropWhile isWhiteSpace (rev (dropWhile isWhiteSpace s)))"

definition toLower :: "char \<Rightarrow> char" where
  "toLower c = (let n = (of_char c :: nat) in if 65 \<le> n \<and> n \<le> 90 then char_of (n + 32) else c)"

fun isPrefixOf :: "string \<Rightarrow> string \<Rightarrow> bool" where
  "isPrefixOf [] s = True"
| "isPrefixOf (x # xs) [] = False"
| "isPrefixOf (x # xs) (y # ys) = (x = y \<and> isPrefixOf xs ys)"

fun stringIncludes :: "string \<Rightarrow> string \<Rightarrow> bool" where
  "stringIncludes [] sub = (sub = [])"
| "stringIncludes (y # ys) sub = (isPrefixOf sub (y # ys) \<or> stringIncludes ys sub)"

subsection \<open>Numeric literals: \<^verbatim>\<open>parseFloat\<close> and \<^verbatim>\<open>Number\<close>\<close>

definition digitValue :: "nat \<Rightarrow> char \<Rightarrow> nat optional" where
  "digitValue radix c =
     (let n = (of_char c :: nat);
          v = (if 48 \<le> n \<and> n \<le> 57 then n - 48
               else if 97 \<le> n \<and> n \<le> 102 then n - 87
               else if 65 \<le> n \<and> n \<le> 70 then n - 55
               else radix)
      in if v < radix then Some v else None)"

definition isDigit :: "char \<Rightarrow> bool" where
  "isDigit c \<longleftrightarrow> digitValue 10 c \<noteq> None"

definition digitsValue :: "nat \<Rightarrow> string \<Rightarrow> nat" where
  "digitsValue radix ds = foldl (\<lambda>a c. radix * a + (case digitValue radix c of Some d \<Rightarrow> d | None \<Rightarrow> 0)) 0 ds"

text \<open>
  The exponent part of a decimal literal: \<^verbatim>\<open>e\<close> or \<^verbatim>\<open>E\<close>, an optional sign and at least one
  digit. Returns the power of ten and the rest of the input; input that does not start
  with a complete exponent part is left alone.
\<close>

definition scanExponent :: "string \<Rightarrow> rat \<times> string" where
  "scanExponent s =
     (case s of
        [] \<Rightarrow> (1, s)
      | e # r \<Rightarrow>
          if e = CHR ''e'' \<or> e = CHR ''E'' then
            (let neg = (r \<noteq> [] \<and> hd r = CHR ''-'');
                 r' = (if r \<noteq> [] \<and> (hd r = CHR ''-'' \<or> hd r = CHR ''+'') then tl r else r);
                 ds = takeWhile isDigit r'
             in if ds = [] then (1, s)
                else (if neg then 1 / 10 ^ digitsValue 10 ds else 10 ^ digitsValue 10 ds,
                      dropWhile isDigit r'))
          else (1, s))"

text \<open>
  The longest prefix of the input that is an unsigned decimal literal
  (\<^verbatim>\<open>Infinity\<close>, \<^verbatim>\<open>12\<close>, \<^verbatim>\<open>12.\<close>, \<^verbatim>\<open>12.5\<close>, \<^verbatim>\<open>.5\<close>, each with an optional exponent),
  with its value and the rest of the input.
\<close>

definition scanUnsigned :: "string \<Rightarrow> (number \<times> string) option" where
  "scanUnsigned s =
     (if isPrefixOf ''Infinity'' s then Some (PosInfinity, drop 8 s)
      else
        (let ip = takeWhile isDigit s; r1 = dropWhile isDigit s;
             dot = (r1 \<noteq> [] \<and> hd r1 = CHR ''.'');
             fp = (if dot then takeWhile isDigit (tl r1) else []);
             r2 = (if dot then dropWhile isDigit (tl r1) else r1)
         in if ip = [] \<and> fp = [] then None
            else
              (let (p, r3) = scanExponent r2;
                   m = of_nat (digitsValue 10 ip) + of_nat (digitsValue 10 fp) / 10 ^ length fp
               in Some (Fin (m * p), r3))))"

definition negate :: "number \<Rightarrow> number" where
  "negate x = (case x of Fin r \<Rightarrow> Fin (- r) | NaN \<Rightarrow> NaN
               | PosInfinity \<Rightarrow> NegInfinity | NegInfinity \<Rightarrow> PosInfinity)"

definition scanSigned :: "string \<Rightarrow> (number \<times> string) option" where
  "scanSigned s =
     (case s of
        [] \<Rightarrow> None
      | c # r \<Rightarrow>
          if c = CHR ''-'' then map_option (\<lambda>(v, rest). (negate v, rest)) (scanUnsigned r)
          else if c = CHR ''+'' then scanUnsigned r
          else scanUnsigned s)"

text \<open>
  \<^verbatim>\<open>parseFloat(s)\<close>: leading white space is skipped, the longest decimal literal at the
  front is read and whatever follows it is ignored; \<^verbatim>\<open>NaN\<close> when there is none.
\<close>

definition parseFloat :: "string \<Rightarrow> number" where
  "parseFloat s =
     (case scanSigned (dropWhile isWhiteSpace s) of None \<Rightarrow> NaN | Some (v, rest) \<Rightarrow> v)"

definition radixLiteral :: "string \<Rightarrow> number optional" where
  "radixLiteral s =
     (case s of
        z # x # ds \<Rightarrow>
          (let radix = (if x = CHR ''x'' \<or> x = CHR ''X'' then 16
                        else if x = CHR ''o'' \<or> x = CHR ''O'' then 8
                        else if x = CHR ''b'' \<or> x = CHR ''B'' then 2 else (0::nat))
           in if z = CHR ''0'' \<and> radix \<noteq> 0 \<and> ds \<noteq> [] \<and> (\<forall>d \<in> set ds. digitValue radix d \<noteq> None)
              then Some (Fin (of_nat (digitsValue radix ds))) else None)
      | _ \<Rightarrow> None)"

text \<open>
  \<^verbatim>\<open>Number(s)\<close> on a string: the whole trimmed string must be a numeric literal; the empty
  string is \<open>0\<close>.
\<close>

definition Number :: "string \<Rightarrow> number" where
  "Number s =
     (let t = trim s in
      if t = [] then Fin 0
      else case radixLiteral t of
             Some v \<Rightarrow> v
           | None \<Rightarrow> (case scanSigned t of Some (v, []) \<Rightarrow> v | _ \<Rightarrow> NaN))"

definition isNaN :: "number \<Rightarrow> bool" where
  "isNaN x \<longleftrightarrow> x = NaN"

definition isInteger :: "number \<Rightarrow> bool" where
  "isInteger x = (case x of Fin r \<Rightarrow> r = of_int \<lfloor>r\<rfloor> | _ \<Rightarrow> False)"

text \<open>Comparison of numbers as \<^verbatim>\<open>>\<close> and \<^verbatim>\<open><\<close> compute it: false whenever \<^verbatim>\<open>NaN\<close> takes part.\<close>

fun numLess :: "number \<Rightarrow> number \<Rightarrow> bool" where
  "numLess NaN _ = False"
| "numLess _ NaN = False"
| "numLess (Fin a) (Fin b) = (a < b)"
| "numLess _ NegInfinity = False"
| "numLess NegInfinity _ = True"
| "numLess PosInfinity _ = False"
| "numLess (Fin a) PosInfinity = True"

definition numGreater :: "number \<Rightarrow> number \<Rightarrow> bool" where
  "numGreater a b = numLess b a"

text \<open>\<^verbatim>\<open>a / b\<close> on two integers, and \<^verbatim>\<open>Math.ceil\<close>.\<close>

definition divideInt :: "int \<Rightarrow> int \<Rightarrow> number" where
  "divideInt a b =
     (if b = 0 then (if a = 0 then NaN else if 0 < a then PosInfinity else NegInfinity)
      else Fin (of_int a / of_int b))"

definition Math_ceil :: "number \<Rightarrow> number" where
  "Math_ceil x = (case x of Fin r \<Rightarrow> Fin (of_int \<lceil>r\<rceil>) | _ \<Rightarrow> x)"


section \<open>Errors and responses\<close>

text \<open>
  A validation issue is the property it is about and the message of the failing rule:
  the schema's own message where it gives one, the rule's code otherwise.
\<close>

datatype issue = Issue string string

text \<open>
  What can be thrown: an instance of the validation library's \<^verbatim>\<open>ZodError\<close>, or another
  \<^verbatim>\<open>Error\<close> with its \<^verbatim>\<open>name\<close> and \<^verbatim>\<open>message\<close>, the \<^verbatim>\<open>code\<close> property when it has one
  and the value of \<^verbatim>\<open>meta?.target\<close>.
\<close>

datatype js_error =
    ZodError "issue list"
  | Error string string "string optional" "string list optional"

fun renderIssue :: "issue \<Rightarrow> string" where
  "renderIssue (Issue k m) = k @ '': '' @ m @ ''; ''"

text \<open>The \<^verbatim>\<open>message\<close> of a \<^verbatim>\<open>ZodError\<close>: a rendering of its issues, one after the other.\<close>

definition issuesMessage :: "issue list \<Rightarrow> string" where
  "issuesMessage iss = concat (map renderIssue iss)"

record Category =
  c_id :: string
  c_name :: string
  c_description :: "string nullable"
  c_createdAt :: nat
  c_updatedAt :: nat

record Product =
  p_id :: string
  p_name :: string
  p_description :: "string nullable"
  p_price :: rat
  p_stock :: int
  p_sku :: string
  p_isActive :: bool
  p_categoryId :: string
  p_createdAt :: nat
  p_updatedAt :: nat

record Meta =
  m_page :: int
  m_limit :: int
  m_total :: int
  m_totalPages :: number

datatype payload =
    CategoryList "Category list"
  | CategoryData Category
  | ProductList "Product list"
  | ProductData Product

record ApiResponse =
  success :: bool
  message :: string
  data :: "payload optional"
  error :: "string optional"
  meta :: "Meta optional"

text \<open>What was sent: the status code and the JSON body, if any.\<close>

record Response =
  statusCode :: nat
  body :: "ApiResponse optional"

text \<open>
  A JavaScript string is truthy when it is not empty; \<^verbatim>\<open>...(error && { error })\<close> adds the
  property only then.
\<close>

definition truthy :: "string optional \<Rightarrow> string optional" where
  "truthy s = (case s of None \<Rightarrow> None | Some t \<Rightarrow> if t = [] then None else Some t)"

definition sendSuccess :: "payload \<Rightarrow> string \<Rightarrow> nat \<Rightarrow> Meta optional \<Rightarrow> Response" where
  "sendSuccess d msg code mt =
     \<lparr>statusCode = code,
      body = Some \<lparr>success = True, message = msg, data = Some d, error = None, meta = mt\<rparr>\<rparr>"

definition sendCreated :: "payload \<Rightarrow> string \<Rightarrow> Response" where
  "sendCreated d msg = sendSuccess d msg 201 None"

definition sendNoContent :: Response where
  "sendNoContent = \<lparr>statusCode = 204, body = None\<rparr>"

definition sendError :: "string \<Rightarrow> nat \<Rightarrow> string optional \<Rightarrow> Response" where
  "sendError msg code err =
     \<lparr>statusCode = code,
      body = Some \<lparr>success = False, message = msg, data = None, error = truthy err, meta = None\<rparr>\<rparr>"

definition sendBadRequest :: "string \<Rightarrow> string optional \<Rightarrow> Response" where
  "sendBadRequest msg err = sendError msg 400 err"

definition sendNotFound :: "string \<Rightarrow> Response" where
  "sendNotFound msg = sendError msg 404 None"

definition sendConflict :: "string \<Rightarrow> Response" where
  "sendConflict msg = sendError msg 409 None"

definition sendInternalError :: "string optional \<Rightarrow> Response" where
  "sendInternalError err = sendError ''Internal server error'' 500 err"

subsection \<open>The central error handler\<close>

text \<open>
  What a request runs in: the \<^verbatim>\<open>NODE_ENV\<close> variable, and the identifier and the time the
  database gives to a row created now.
\<close>

record Env =
  NODE_ENV :: "string optional"
  newId :: string
  now :: nat

text \<open>\<^verbatim>\<open>prismaError.meta?.target?.[0] || 'field'\<close>\<close>

definition targetField :: "string list optional \<Rightarrow> string" where
  "targetField t =
     (case t of
        None \<Rightarrow> ''field''
      | Some [] \<Rightarrow> ''field''
      | Some (f # fs) \<Rightarrow> if f = [] then ''field'' else f)"

definition errorHandler :: "Env \<Rightarrow> js_error \<Rightarrow> Response" where
  "errorHandler env err =
     (case err of
        ZodError iss \<Rightarrow> sendBadRequest ''Validation error'' (Some (issuesMessage iss))
      | Error name msg code target \<Rightarrow>
          if name = ''PrismaClientKnownRequestError'' then
            (if code = Some ''P2002'' then
               sendBadRequest (''A record with this '' @ targetField target @ '' already exists'') None
             else if code = Some ''P2025'' then sendNotFound ''Record not found''
             else if code = Some ''P2003'' then
               sendBadRequest ''Referenced record does not exist'' None
             else sendInternalError (Some ''Database error occurred''))
          else if name = ''PrismaClientValidationError'' then
            sendBadRequest ''Invalid data provided'' None
          else
            sendInternalError (if NODE_ENV env = Some ''development'' then Some msg else None))"

section \<open>Validation schemas\<close>

text \<open>
  The result of parsing with a schema: the normalised value, or the issues found.
  A schema whose transform throws does neither, so parsing with such a schema has an
  outcome in \<open>js_error + 'a parsed\<close>.
\<close>

datatype 'a parsed = Valid 'a | Invalid "issue list"

fun issuesOf :: "'a parsed \<Rightarrow> issue list" where
  "issuesOf (Valid v) = []"
| "issuesOf (Invalid iss) = iss"

text \<open>Two properties of one object: both values, or all the issues of the two.\<close>

fun both :: "'a parsed \<Rightarrow> 'b parsed \<Rightarrow> ('a \<times> 'b) parsed" where
  "both (Valid a) (Valid b) = Valid (a, b)"
| "both a b = Invalid (issuesOf a @ issuesOf b)"

fun checked :: "issue list \<Rightarrow> 'a \<Rightarrow> 'a parsed" where
  "checked [] v = Valid v"
| "checked iss v = Invalid iss"

definition required :: "string \<Rightarrow> (json \<Rightarrow> 'a parsed) \<Rightarrow> json optional \<Rightarrow> 'a parsed" where
  "required key schema v =
     (case v of None \<Rightarrow> Invalid [Issue key ''invalid_type''] | Some j \<Rightarrow> schema j)"

text \<open>
  \<^verbatim>\<open>z.string().min(n, msg).max(m, msg').trim()\<close>: the lengths are checked on the string as
  given, then it is trimmed. \<open>minRule\<close> is absent where the schema has no \<^verbatim>\<open>min\<close>.
\<close>

definition stringSchema ::
  "string \<Rightarrow> (nat \<times> string) option \<Rightarrow> nat \<times> string \<Rightarrow> json \<Rightarrow> string parsed" where
  "stringSchema key minRule maxRule v =
     (case v of
        JString s \<Rightarrow>
          checked
            ((case minRule of
                Some (n, msg) \<Rightarrow> if length s < n then [Issue key msg] else []
              | None \<Rightarrow> [])
             @ (if fst maxRule < length s then [Issue key (snd maxRule)] else []))
            (trim s)
      | _ \<Rightarrow> Invalid [Issue key ''invalid_type''])"

text \<open>\<^verbatim>\<open>.optional().nullable()\<close> around a schema.\<close>

definition optionalNullable ::
  "(json \<Rightarrow> 'a parsed) \<Rightarrow> json optional \<Rightarrow> 'a nullable optional parsed" where
  "optionalNullable schema v =
     (case v of
        None \<Rightarrow> Valid None
      | Some JNull \<Rightarrow> Valid (Some None)
      | Some j \<Rightarrow> (case schema j of Valid x \<Rightarrow> Valid (Some (Some x)) | Invalid iss \<Rightarrow> Invalid iss))"

text \<open>
  \<^verbatim>\<open>z.string().uuid(msg)\<close>: five groups of 8, 4, 4, 4 and 12 hexadecimal digits with
  hyphens between them. What the library asks of the version and variant digits beyond
  that is not modelled.
\<close>

fun hexGroups :: "nat list \<Rightarrow> string \<Rightarrow> bool" where
  "hexGroups [] s = (s = [])"
| "hexGroups [n] s = (length s = n \<and> list_all (\<lambda>c. digitValue 16 c \<noteq> None) s)"
| "hexGroups (n # m # ns) s =
     (length (take n s) = n \<and> list_all (\<lambda>c. digitValue 16 c \<noteq> None) (take n s)
      \<and> (case drop n s of [] \<Rightarrow> False | c # r \<Rightarrow> c = CHR ''-'' \<and> hexGroups (m # ns) r))"

definition isUuid :: "string \<Rightarrow> bool" where
  "isUuid s = hexGroups [8, 4, 4, 4, 12] s"

definition uuidSchema :: "string \<Rightarrow> string \<Rightarrow> json \<Rightarrow> string parsed" where
  "uuidSchema key msg v =
     (case v of
        JString s \<Rightarrow> if isUuid s then Valid s else Invalid [Issue key msg]
      | _ \<Rightarrow> Invalid [Issue key ''invalid_type''])"

definition toInt :: "number \<Rightarrow> int" where
  "toInt n = (case n of Fin r \<Rightarrow> \<lfloor>r\<rfloor> | _ \<Rightarrow> 0)"

subsection \<open>Product body\<close>

text \<open>
  The transform of \<^verbatim>\<open>price\<close>, applied to a value the union
  \<^verbatim>\<open>z.union([z.string(), z.number()])\<close> has accepted.
\<close>

definition priceTransform :: "string + number \<Rightarrow> js_error + number" where
  "priceTransform val =
     (let num = (case val of Inl s \<Rightarrow> parseFloat s | Inr n \<Rightarrow> n)
      in if isNaN num then Inl (Error ''Error'' ''Invalid price format'' None None) else Inr num)"

text \<open>\<^verbatim>\<open>z.number().positive(msg).max(99999999.99, msg')\<close>, the target of the pipe.\<close>

definition pricePipe :: "number \<Rightarrow> rat parsed" where
  "pricePipe num =
     (if isNaN num then Invalid [Issue ''price'' ''invalid_type'']
      else checked
             ((if numGreater num (Fin 0) then []
               else [Issue ''price'' ''Price must be a positive number''])
              @ (if numGreater num (Fin (9999999999 / 100))
                 then [Issue ''price'' ''Price is too large''] else []))
             (case num of Fin r \<Rightarrow> r | _ \<Rightarrow> 0))"

definition priceSchema :: "json optional \<Rightarrow> js_error + rat parsed" where
  "priceSchema v =
     (case v of
        Some (JString s) \<Rightarrow> map_sum id pricePipe (priceTransform (Inl s))
      | Some (JNumber n) \<Rightarrow>
          if isNaN n then Inr (Invalid [Issue ''price'' ''invalid_union''])
          else map_sum id pricePipe (priceTransform (Inr n))
      | _ \<Rightarrow> Inr (Invalid [Issue ''price'' ''invalid_union'']))"

text \<open>\<^verbatim>\<open>z.number().int(msg).min(0, msg').default(0)\<close>\<close>

definition stockSchema :: "json optional \<Rightarrow> int parsed" where
  "stockSchema v =
     (case v of
        None \<Rightarrow> Valid 0
      | Some (JNumber n) \<Rightarrow>
          if isNaN n then Invalid [Issue ''stock'' ''invalid_type'']
          else checked
                 ((if isInteger n then [] else [Issue ''stock'' ''Stock must be an integer''])
                  @ (if numLess n (Fin 0) then [Issue ''stock'' ''Stock cannot be negative''] else []))
                 (toInt n)
      | Some j \<Rightarrow> Invalid [Issue ''stock'' ''invalid_type''])"

text \<open>\<^verbatim>\<open>z.boolean().default(true)\<close>\<close>

definition isActiveSchema :: "json optional \<Rightarrow> bool parsed" where
  "isActiveSchema v =
     (case v of
        None \<Rightarrow> Valid True
      | Some (JBool b) \<Rightarrow> Valid b
      | Some j \<Rightarrow> Invalid [Issue ''isActive'' ''invalid_type''])"

record CreateProductInput =
  cp_name :: string
  cp_description :: "string nullable optional"
  cp_price :: rat
  cp_stock :: int
  cp_sku :: string
  cp_isActive :: bool
  cp_categoryId :: string

text \<open>
  \<^verbatim>\<open>createProductSchema.safeParse(body)\<close>. The properties are parsed in the order of the
  schema; only the transform of \<^verbatim>\<open>price\<close> can throw, and what it throws leaves
  \<^verbatim>\<open>safeParse\<close>. Unknown properties are dropped.
\<close>

definition createProductSchema :: "json \<Rightarrow> js_error + CreateProductInput parsed" where
  "createProductSchema b =
     (case b of
        JObject kvs \<Rightarrow>
          (case priceSchema (getProp b ''price'') of
             Inl e \<Rightarrow> Inl e
           | Inr price \<Rightarrow>
               Inr (map_parsed
                      (\<lambda>(name, description, price, stock, sku, isActive, categoryId).
                         \<lparr>cp_name = name, cp_description = description, cp_price = price,
                          cp_stock = stock, cp_sku = sku, cp_isActive = isActive,
                          cp_categoryId = categoryId\<rparr>)
                      (both (required ''name''
                               (stringSchema ''name'' (Some (1, ''Product name is required''))
                                  (200, ''Product name must be at most 200 characters''))
                               (getProp b ''name''))
                      (both (optionalNullable
                               (stringSchema ''description'' None
                                  (1000, ''Description must be at most 1000 characters''))
                               (getProp b ''description''))
                      (both price
                      (both (stockSchema (getProp b ''stock''))
                      (both (required ''sku''
                               (stringSchema ''sku'' (Some (1, ''SKU is required''))
                                  (50, ''SKU must be at most 50 characters''))
                               (getProp b ''sku''))
                      (both (isActiveSchema (getProp b ''isActive''))
                            (required ''categoryId''
                               (uuidSchema ''categoryId'' ''Invalid category ID format'')
                               (getProp b ''categoryId''))))))))))
      | _ \<Rightarrow> Inr (Invalid [Issue ''body'' ''invalid_type'']))"

text \<open>\<^verbatim>\<open>productIdParamSchema\<close> and \<^verbatim>\<open>categoryIdParamSchema\<close>, on the \<^verbatim>\<open>id\<close> of the route.\<close>

definition productIdParamSchema :: "string \<Rightarrow> string parsed" where
  "productIdParamSchema i = uuidSchema ''id'' ''Invalid product ID format'' (JString i)"

definition categoryIdParamSchema :: "string \<Rightarrow> string parsed" where
  "categoryIdParamSchema i = uuidSchema ''id'' ''Invalid category ID format'' (JString i)"

subsection \<open>Query parameters\<close>

text \<open>
  The query of a request maps a parameter name to the string given for it. A number is
  read from it by \<^verbatim>\<open>z.coerce.number()\<close>, that is by \<^verbatim>\<open>Number\<close>, which gives \<^verbatim>\<open>NaN\<close> (not a
  number for the schema) on anything but a numeric literal. \<^verbatim>\<open>.max(100)\<close> is a rule of the
  schema like the others: a larger value is an issue.
\<close>

type_synonym query = "string \<Rightarrow> string optional"

text \<open>\<^verbatim>\<open>z.coerce.number().int().positive().default(1)\<close>\<close>

definition pageSchema :: "string optional \<Rightarrow> int parsed" where
  "pageSchema v =
     (case v of
        None \<Rightarrow> Valid 1
      | Some s \<Rightarrow>
          (let n = Number s in
           if isNaN n then Invalid [Issue ''page'' ''invalid_type'']
           else checked
                  ((if isInteger n then [] else [Issue ''page'' ''not_integer''])
                   @ (if numGreater n (Fin 0) then [] else [Issue ''page'' ''too_small'']))
                  (toInt n)))"

text \<open>\<^verbatim>\<open>z.coerce.number().int().positive().max(100).default(10)\<close>\<close>

definition limitSchema :: "string optional \<Rightarrow> int parsed" where
  "limitSchema v =
     (case v of
        None \<Rightarrow> Valid 10
      | Some s \<Rightarrow>
          (let n = Number s in
           if isNaN n then Invalid [Issue ''limit'' ''invalid_type'']
           else checked
                  ((if isInteger n then [] else [Issue ''limit'' ''not_integer''])
                   @ (if numGreater n (Fin 0) then [] else [Issue ''limit'' ''too_small''])
                   @ (if numGreater n (Fin 100) then [Issue ''limit'' ''too_big''] else []))
                  (toInt n)))"

record CategoryQuery =
  cq_page :: int
  cq_limit :: int
  cq_search :: "string optional"

text \<open>\<^verbatim>\<open>categoryQuerySchema.safeParse(req.query)\<close>: three parameters are read, any other is dropped.\<close>

definition categoryQuerySchema :: "query \<Rightarrow> CategoryQuery parsed" where
  "categoryQuerySchema q =
     map_parsed (\<lambda>(page, limit). \<lparr>cq_page = page, cq_limit = limit, cq_search = q ''search''\<rparr>)
       (both (pageSchema (q ''page'')) (limitSchema (q ''limit'')))"

datatype SortField = SortName | SortPrice | SortCreatedAt | SortStock

datatype SortOrder = Asc | Desc

record ProductQuery =
  pq_page :: int
  pq_limit :: int
  pq_search :: "string optional"
  pq_categoryId :: "string optional"
  pq_isActive :: "bool optional"
  pq_minPrice :: "number optional"
  pq_maxPrice :: "number optional"
  pq_sortBy :: SortField
  pq_sortOrder :: SortOrder

text \<open>\<^verbatim>\<open>z.string().uuid().optional()\<close>\<close>

definition categoryIdFilterSchema :: "string optional \<Rightarrow> string optional parsed" where
  "categoryIdFilterSchema v =
     (case v of
        None \<Rightarrow> Valid None
      | Some s \<Rightarrow> if isUuid s then Valid (Some s) else Invalid [Issue ''categoryId'' ''invalid_string''])"

text \<open>\<^verbatim>\<open>z.string().transform((val) => val === 'true').optional()\<close>\<close>

definition isActiveFilterSchema :: "string optional \<Rightarrow> bool optional" where
  "isActiveFilterSchema v = map_option (\<lambda>val. val = ''true'') v"

text \<open>\<^verbatim>\<open>z.coerce.number().positive().optional()\<close>\<close>

definition priceFilterSchema :: "string \<Rightarrow> string optional \<Rightarrow> number optional parsed" where
  "priceFilterSchema key v =
     (case v of
        None \<Rightarrow> Valid None
      | Some s \<Rightarrow>
          (let n = Number s in
           if isNaN n then Invalid [Issue key ''invalid_type'']
           else checked (if numGreater n (Fin 0) then [] else [Issue key ''too_small'']) (Some n)))"

text \<open>\<^verbatim>\<open>z.enum(['name', 'price', 'createdAt', 'stock']).default('createdAt')\<close>\<close>

definition sortBySchema :: "string optional \<Rightarrow> SortField parsed" where
  "sortBySchema v =
     (case v of
        None \<Rightarrow> Valid SortCreatedAt
      | Some s \<Rightarrow>
          if s = ''name'' then Valid SortName
          else if s = ''price'' then Valid SortPrice
          else if s = ''createdAt'' then Valid SortCreatedAt
          else if s = ''stock'' then Valid SortStock
          else Invalid [Issue ''sortBy'' ''invalid_enum_value''])"

text \<open>\<^verbatim>\<open>z.enum(['asc', 'desc']).default('desc')\<close>\<close>

definition sortOrderSchema :: "string optional \<Rightarrow> SortOrder parsed" where
  "sortOrderSchema v =
     (case v of
        None \<Rightarrow> Valid Desc
      | Some s \<Rightarrow>
          if s = ''asc'' then Valid Asc
          else if s = ''desc'' then Valid Desc
          else Invalid [Issue ''sortOrder'' ''invalid_enum_value''])"

definition productQuerySchema :: "query \<Rightarrow> ProductQuery parsed" where
  "productQuerySchema q =
     map_parsed
       (\<lambda>(page, limit, categoryId, minPrice, maxPrice, sortBy, sortOrder).
          \<lparr>pq_page = page, pq_limit = limit, pq_search = q ''search'',
           pq_categoryId = categoryId, pq_isActive = isActiveFilterSchema (q ''isActive''),
           pq_minPrice = minPrice, pq_maxPrice = maxPrice,
           pq_sortBy = sortBy, pq_sortOrder = sortOrder\<rparr>)
       (both (pageSchema (q ''page''))
       (both (limitSchema (q ''limit''))
       (both (categoryIdFilterSchema (q ''categoryId''))
       (both (priceFilterSchema ''minPrice'' (q ''minPrice''))
       (both (priceFilterSchema ''maxPrice'' (q ''maxPrice''))
       (both (sortBySchema (q ''sortBy'')) (sortOrderSchema (q ''sortOrder''))))))))"

section \<open>The database behind the ORM client\<close>

text \<open>
  Modelled from the spec: the schema of the two tables and the client generated from it
  (\<^verbatim>\<open>prisma/generate/client\<close>) are not among the sources. The database is the rows of the
  two tables, in the order of their creation. From section 3 of the spec: \<^verbatim>\<open>id\<close> identifies
  a row, the \<^verbatim>\<open>sku\<close> of a product and the \<^verbatim>\<open>name\<close> of a category are unique, \<^verbatim>\<open>categoryId\<close>
  must reference an existing category, and a category that products reference cannot be
  deleted; a write that would break one of these is refused with the error code of the
  constraint. An update writes the columns it is given and no other (the spec's partial
  update), so the two timestamps are columns like the others, set when the row is created.
\<close>

record Database =
  categories :: "Category list"
  products :: "Product list"

definition knownRequestError :: "string \<Rightarrow> string list optional \<Rightarrow> js_error" where
  "knownRequestError code target =
     Error ''PrismaClientKnownRequestError'' ''Invalid invocation'' (Some code) target"

subsection \<open>Reading\<close>

text \<open>\<^verbatim>\<open>{ contains: search, mode: 'insensitive' }\<close> on a column that may be \<^verbatim>\<open>null\<close>.\<close>

definition containsInsensitive :: "string nullable \<Rightarrow> string \<Rightarrow> bool" where
  "containsInsensitive col search =
     (case col of None \<Rightarrow> False | Some v \<Rightarrow> stringIncludes (map toLower v) (map toLower search))"

definition numLessEq :: "number \<Rightarrow> number \<Rightarrow> bool" where
  "numLessEq a b \<longleftrightarrow> numLess a b \<or> (a = b \<and> a \<noteq> NaN)"

text \<open>
  The filter object of the product list: the search term of the \<^verbatim>\<open>OR\<close> of the three
  \<^verbatim>\<open>contains\<close> filters, the two exact matches, and the \<^verbatim>\<open>gte\<close> and \<^verbatim>\<open>lte\<close> of \<^verbatim>\<open>price\<close>.
\<close>

record ProductWhereInput =
  w_OR :: "string optional"
  w_categoryId :: "string optional"
  w_isActive :: "bool optional"
  w_price :: "(number optional \<times> number optional) optional"

definition productMatches :: "ProductWhereInput \<Rightarrow> Product \<Rightarrow> bool" where
  "productMatches w p \<longleftrightarrow>
     (case w_OR w of
        None \<Rightarrow> True
      | Some s \<Rightarrow> containsInsensitive (Some (p_name p)) s \<or> containsInsensitive (p_description p) s
                  \<or> containsInsensitive (Some (p_sku p)) s)
     \<and> (case w_categoryId w of None \<Rightarrow> True | Some c \<Rightarrow> p_categoryId p = c)
     \<and> (case w_isActive w of None \<Rightarrow> True | Some a \<Rightarrow> p_isActive p = a)
     \<and> (case w_price w of
          None \<Rightarrow> True
        | Some (gte, lte) \<Rightarrow>
            (case gte of None \<Rightarrow> True | Some lo \<Rightarrow> numLessEq lo (Fin (p_price p)))
            \<and> (case lte of None \<Rightarrow> True | Some hi \<Rightarrow> numLessEq (Fin (p_price p)) hi))"

text \<open>The filter object of the category list: the search term of its \<^verbatim>\<open>OR\<close>, or \<^verbatim>\<open>{}\<close>.\<close>

definition categoryMatches :: "string optional \<Rightarrow> Category \<Rightarrow> bool" where
  "categoryMatches w c \<longleftrightarrow>
     (case w of
        None \<Rightarrow> True
      | Some s \<Rightarrow> containsInsensitive (Some (c_name c)) s \<or> containsInsensitive (c_description c) s)"

text \<open>
  \<^verbatim>\<open>orderBy: { [column]: direction }\<close>. Rows with equal keys come in some order the database
  chooses; here in the order of the table, reversed for \<^verbatim>\<open>desc\<close>.
\<close>

definition orderRows :: "SortOrder \<Rightarrow> ('a \<Rightarrow> 'k::linorder) \<Rightarrow> 'a list \<Rightarrow> 'a list" where
  "orderRows dir key rows = (case dir of Asc \<Rightarrow> sort_key key rows | Desc \<Rightarrow> rev (sort_key key rows))"

definition orderProducts :: "SortField \<Rightarrow> SortOrder \<Rightarrow> Product list \<Rightarrow> Product list" where
  "orderProducts col dir rows =
     (case col of
        SortName \<Rightarrow> orderRows dir p_name rows
      | SortPrice \<Rightarrow> orderRows dir p_price rows
      | SortCreatedAt \<Rightarrow> orderRows dir p_createdAt rows
      | SortStock \<Rightarrow> orderRows dir p_stock rows)"

text \<open>
  \<^verbatim>\<open>findMany({ where, skip, take, orderBy })\<close> on the rows of a table: filter, order, skip,
  take. A negative \<^verbatim>\<open>skip\<close> is refused by the client; a negative \<^verbatim>\<open>take\<close> reads from the end
  of the ordering.
\<close>

definition findMany ::
  "('a \<Rightarrow> bool) \<Rightarrow> ('a list \<Rightarrow> 'a list) \<Rightarrow> int \<Rightarrow> int \<Rightarrow> 'a list \<Rightarrow> js_error + 'a list" where
  "findMany cond orderBy skip tk rows =
     (if skip < 0 then
        Inl (Error ''PrismaClientValidationError'' ''Invalid value for skip'' None None)
      else
        (let sel = orderBy (filter cond rows) in
         if 0 \<le> tk then Inr (take (nat tk) (drop (nat skip) sel))
         else Inr (rev (take (nat (- tk)) (drop (nat skip) (rev sel))))))"

definition count :: "('a \<Rightarrow> bool) \<Rightarrow> 'a list \<Rightarrow> int" where
  "count cond rows = int (length (filter cond rows))"

subsection \<open>Writing\<close>

text \<open>
  Modelled from the spec: \<^verbatim>\<open>product.create\<close> of the absent client, under the constraints of
  the absent schema. The primary key and the unique sku are checked, then the foreign key;
  the row is added at the end of the table.
\<close>

definition insertProduct :: "Database \<Rightarrow> Product \<Rightarrow> js_error + Database \<times> Product" where
  "insertProduct db row =
     (if \<exists>p \<in> set (products db). p_id p = p_id row then
        Inl (knownRequestError ''P2002'' (Some [''id'']))
      else if \<exists>p \<in> set (products db). p_sku p = p_sku row then
        Inl (knownRequestError ''P2002'' (Some [''sku'']))
      else if \<not> (\<exists>c \<in> set (categories db). c_id c = p_categoryId row) then
        Inl (knownRequestError ''P2003'' None)
      else Inr (db\<lparr>products := products db @ [row]\<rparr>, row))"

text \<open>The \<^verbatim>\<open>data\<close> of an update: for each column, the value to write, if any.\<close>

record ProductUpdateData =
  d_name :: "string optional"
  d_description :: "string nullable optional"
  d_price :: "rat optional"
  d_stock :: "int optional"
  d_sku :: "string optional"
  d_isActive :: "bool optional"
  d_categoryId :: "string optional"

definition writeColumn :: "'a optional \<Rightarrow> 'a \<Rightarrow> 'a" where
  "writeColumn new old = (case new of None \<Rightarrow> old | Some v \<Rightarrow> v)"

definition applyProductUpdate :: "ProductUpdateData \<Rightarrow> Product \<Rightarrow> Product" where
  "applyProductUpdate d p =
     p\<lparr>p_name := writeColumn (d_name d) (p_name p),
       p_description := writeColumn (d_description d) (p_description p),
       p_price := writeColumn (d_price d) (p_price p),
       p_stock := writeColumn (d_stock d) (p_stock p),
       p_sku := writeColumn (d_sku d) (p_sku p),
       p_isActive := writeColumn (d_isActive d) (p_isActive p),
       p_categoryId := writeColumn (d_categoryId d) (p_categoryId p)\<rparr>"

text \<open>
  Modelled from the spec: \<^verbatim>\<open>product.update\<close> of the absent client. The row must exist, a
  new sku must not be that of another row and a new category must exist; then the columns
  of \<^verbatim>\<open>data\<close> are written to the row and the updated row is returned.
\<close>

definition updateProduct ::
  "Database \<Rightarrow> string \<Rightarrow> ProductUpdateData \<Rightarrow> js_error + Database \<times> Product" where
  "updateProduct db i d =
     (case find (\<lambda>p. p_id p = i) (products db) of
        None \<Rightarrow> Inl (knownRequestError ''P2025'' None)
      | Some p \<Rightarrow>
          if (case d_sku d of None \<Rightarrow> False
              | Some s \<Rightarrow> \<exists>q \<in> set (products db). p_id q \<noteq> i \<and> p_sku q = s) then
            Inl (knownRequestError ''P2002'' (Some [''sku'']))
          else if (case d_categoryId d of None \<Rightarrow> False
                   | Some c \<Rightarrow> \<not> (\<exists>k \<in> set (categories db). c_id k = c)) then
            Inl (knownRequestError ''P2003'' None)
          else
            Inr (db\<lparr>products :=
                      map (\<lambda>q. if p_id q = i then applyProductUpdate d q else q) (products db)\<rparr>,
                 applyProductUpdate d p))"

record CategoryUpdateData =
  e_name :: "string optional"
  e_description :: "string nullable optional"

definition applyCategoryUpdate :: "CategoryUpdateData \<Rightarrow> Category \<Rightarrow> Category" where
  "applyCategoryUpdate d c =
     c\<lparr>c_name := writeColumn (e_name d) (c_name c),
       c_description := writeColumn (e_description d) (c_description c)\<rparr>"

text \<open>
  Modelled from the spec: \<^verbatim>\<open>category.update\<close> of the absent client, with the unique name
  in the place of the unique sku.
\<close>

definition updateCategory ::
  "Database \<Rightarrow> string \<Rightarrow> CategoryUpdateData \<Rightarrow> js_error + Database \<times> Category" where
  "updateCategory db i d =
     (case find (\<lambda>c. c_id c = i) (categories db) of
        None \<Rightarrow> Inl (knownRequestError ''P2025'' None)
      | Some c \<Rightarrow>
          if (case e_name d of None \<Rightarrow> False
              | Some n \<Rightarrow> \<exists>k \<in> set (categories db). c_id k \<noteq> i \<and> c_name k = n) then
            Inl (knownRequestError ''P2002'' (Some [''name'']))
          else
            Inr (db\<lparr>categories :=
                      map (\<lambda>k. if c_id k = i then applyCategoryUpdate d k else k) (categories db)\<rparr>,
                 applyCategoryUpdate d c))"

text \<open>
  Modelled from the spec: \<^verbatim>\<open>category.delete\<close> of the absent client. The row must exist and
  no product may reference it (deletion is blocked, not cascaded); the deleted row is
  returned.
\<close>

definition deleteCategory :: "Database \<Rightarrow> string \<Rightarrow> js_error + Database \<times> Category" where
  "deleteCategory db i =
     (case find (\<lambda>c. c_id c = i) (categories db) of
        None \<Rightarrow> Inl (knownRequestError ''P2025'' None)
      | Some c \<Rightarrow>
          if \<exists>p \<in> set (products db). p_categoryId p = i then
            Inl (knownRequestError ''P2003'' None)
          else Inr (db\<lparr>categories := filter (\<lambda>k. c_id k \<noteq> i) (categories db)\<rparr>, c))"

section \<open>Services\<close>

text \<open>
  The \<^verbatim>\<open>include\<close> options of the queries add the id and name of its category to a product
  and the number of its products to a category. They are read from the same rows and are
  left out of what the services return here.
\<close>

subsection \<open>Category service\<close>

text \<open>The \<^verbatim>\<open>where\<close> of the category list: \<^verbatim>\<open>search ? { OR: [...] } : {}\<close>.\<close>

definition categoryWhere :: "CategoryQuery \<Rightarrow> string optional" where
  "categoryWhere query = truthy (cq_search query)"

definition categoryService_findAll ::
  "Database \<Rightarrow> CategoryQuery \<Rightarrow> js_error + Category list \<times> Meta" where
  "categoryService_findAll db query =
     (let page = cq_page query; limit = cq_limit query;
          skip = (page - 1) * limit;
          wh = categoryWhere query
      in case findMany (categoryMatches wh) (orderRows Desc c_createdAt) skip limit (categories db) of
           Inl e \<Rightarrow> Inl e
         | Inr rows \<Rightarrow>
             (let total = count (categoryMatches wh) (categories db)
              in Inr (rows, \<lparr>m_page = page, m_limit = limit, m_total = total,
                             m_totalPages = Math_ceil (divideInt total limit)\<rparr>)))"

definition categoryService_findById :: "Database \<Rightarrow> string \<Rightarrow> Category nullable" where
  "categoryService_findById db i = find (\<lambda>c. c_id c = i) (categories db)"

definition categoryService_findByName :: "Database \<Rightarrow> string \<Rightarrow> Category nullable" where
  "categoryService_findByName db n = find (\<lambda>c. c_name c = n) (categories db)"

record UpdateCategoryInput =
  uc_name :: "string optional"
  uc_description :: "string nullable optional"

text \<open>\<^verbatim>\<open>...(data.name !== undefined && { name: data.name })\<close>, for each property.\<close>

definition categoryService_update ::
  "Database \<Rightarrow> string \<Rightarrow> UpdateCategoryInput \<Rightarrow> js_error + Database \<times> Category" where
  "categoryService_update db i inp =
     updateCategory db i
       \<lparr>e_name = (if uc_name inp \<noteq> None then uc_name inp else None),
        e_description = (if uc_description inp \<noteq> None then uc_description inp else None)\<rparr>"

definition categoryService_delete :: "Database \<Rightarrow> string \<Rightarrow> js_error + Database \<times> Category" where
  "categoryService_delete db i = deleteCategory db i"

definition categoryService_hasProducts :: "Database \<Rightarrow> string \<Rightarrow> bool" where
  "categoryService_hasProducts db i = (0 < count (\<lambda>p. p_categoryId p = i) (products db))"

subsection \<open>Product service\<close>

text \<open>
  The \<^verbatim>\<open>where\<close> of the product list: each filter is present when its parameter is truthy
  (\<^verbatim>\<open>search\<close>, \<^verbatim>\<open>categoryId\<close>) or defined (\<^verbatim>\<open>isActive\<close>, the two prices).
\<close>

definition productWhere :: "ProductQuery \<Rightarrow> ProductWhereInput" where
  "productWhere query =
     (let search = pq_search query; categoryId = pq_categoryId query;
          isActive = pq_isActive query;
          minPrice = pq_minPrice query; maxPrice = pq_maxPrice query
      in \<lparr>w_OR = truthy search,
          w_categoryId = truthy categoryId,
          w_isActive = isActive,
          w_price = (if minPrice \<noteq> None \<or> maxPrice \<noteq> None
                     then Some (minPrice, maxPrice) else None)\<rparr>)"

text \<open>
  \<^verbatim>\<open>findAll\<close>. The sources hold a second copy of the product service that logs the query
  and gives \<^verbatim>\<open>page\<close>, \<^verbatim>\<open>limit\<close>, \<^verbatim>\<open>sortBy\<close> and \<^verbatim>\<open>sortOrder\<close> defaults they already have
  after validation; its results are the same.
\<close>

definition productService_findAll ::
  "Database \<Rightarrow> ProductQuery \<Rightarrow> js_error + Product list \<times> Meta" where
  "productService_findAll db query =
     (let page = pq_page query; limit = pq_limit query;
          sortBy = pq_sortBy query; sortOrder = pq_sortOrder query;
          skip = (page - 1) * limit;
          wh = productWhere query
      in case findMany (productMatches wh) (orderProducts sortBy sortOrder) skip limit (products db) of
           Inl e \<Rightarrow> Inl e
         | Inr rows \<Rightarrow>
             (let total = count (productMatches wh) (products db)
              in Inr (rows, \<lparr>m_page = page, m_limit = limit, m_total = total,
                             m_totalPages = Math_ceil (divideInt total limit)\<rparr>)))"

definition productService_findById :: "Database \<Rightarrow> string \<Rightarrow> Product nullable" where
  "productService_findById db i = find (\<lambda>p. p_id p = i) (products db)"

definition productService_findBySku :: "Database \<Rightarrow> string \<Rightarrow> Product nullable" where
  "productService_findBySku db s = find (\<lambda>p. p_sku p = s) (products db)"

text \<open>
  \<^verbatim>\<open>create\<close>: the seven columns come from the input, \<^verbatim>\<open>description\<close> through
  \<^verbatim>\<open>data.description ?? null\<close>; the database fills in \<^verbatim>\<open>id\<close> and the two timestamps.
\<close>

definition productService_create ::
  "Env \<Rightarrow> Database \<Rightarrow> CreateProductInput \<Rightarrow> js_error + Database \<times> Product" where
  "productService_create env db inp =
     insertProduct db
       \<lparr>p_id = newId env,
        p_name = cp_name inp,
        p_description = (case cp_description inp of Some (Some s) \<Rightarrow> Some s | _ \<Rightarrow> None),
        p_price = cp_price inp,
        p_stock = cp_stock inp,
        p_sku = cp_sku inp,
        p_isActive = cp_isActive inp,
        p_categoryId = cp_categoryId inp,
        p_createdAt = now env,
        p_updatedAt = now env\<rparr>"

record UpdateProductInput =
  up_name :: "string optional"
  up_description :: "string nullable optional"
  up_price :: "rat optional"
  up_stock :: "int optional"
  up_sku :: "string optional"
  up_isActive :: "bool optional"
  up_categoryId :: "string optional"

definition productService_update ::
  "Database \<Rightarrow> string \<Rightarrow> UpdateProductInput \<Rightarrow> js_error + Database \<times> Product" where
  "productService_update db i inp =
     updateProduct db i
       \<lparr>d_name = (if up_name inp \<noteq> None then up_name inp else None),
        d_description = (if up_description inp \<noteq> None then up_description inp else None),
        d_price = (if up_price inp \<noteq> None then up_price inp else None),
        d_stock = (if up_stock inp \<noteq> None then up_stock inp else None),
        d_sku = (if up_sku inp \<noteq> None then up_sku inp else None),
        d_isActive = (if up_isActive inp \<noteq> None then up_isActive inp else None),
        d_categoryId = (if up_categoryId inp \<noteq> None then up_categoryId inp else None)\<rparr>"

text \<open>\<^verbatim>\<open>toggleActive\<close>: reads the flag of the row, then writes its negation and nothing else.\<close>

definition productService_toggleActive ::
  "Database \<Rightarrow> string \<Rightarrow> js_error + Database \<times> Product nullable" where
  "productService_toggleActive db i =
     (case map_option p_isActive (find (\<lambda>p. p_id p = i) (products db)) of
        None \<Rightarrow> Inr (db, None)
      | Some isActive \<Rightarrow>
          (case updateProduct db i
                  \<lparr>d_name = None, d_description = None, d_price = None, d_stock = None,
                   d_sku = None, d_isActive = Some (\<not> isActive), d_categoryId = None\<rparr> of
             Inl e \<Rightarrow> Inl e
           | Inr (db', product) \<Rightarrow> Inr (db', Some product)))"

section \<open>Controllers\<close>

text \<open>
  A controller takes the database and what the request carries, and gives the database
  after the request and the response sent. Whatever is thrown inside the \<^verbatim>\<open>try\<close> goes
  through \<^verbatim>\<open>next(error)\<close> to the error handler.
\<close>

definition categoryController_getAll :: "Env \<Rightarrow> Database \<Rightarrow> query \<Rightarrow> Database \<times> Response" where
  "categoryController_getAll env db q =
     (case categoryQuerySchema q of
        Invalid iss \<Rightarrow> (db, sendBadRequest ''Invalid query parameters'' (Some (issuesMessage iss)))
      | Valid query \<Rightarrow>
          (case categoryService_findAll db query of
             Inl e \<Rightarrow> (db, errorHandler env e)
           | Inr (rows, mt) \<Rightarrow>
               (db, sendSuccess (CategoryList rows) ''Categories retrieved successfully''
                      200 (Some mt))))"

definition categoryController_delete :: "Env \<Rightarrow> Database \<Rightarrow> string \<Rightarrow> Database \<times> Response" where
  "categoryController_delete env db i =
     (case categoryIdParamSchema i of
        Invalid iss \<Rightarrow> (db, sendBadRequest ''Invalid category ID'' (Some (issuesMessage iss)))
      | Valid cid \<Rightarrow>
          (case categoryService_findById db cid of
             None \<Rightarrow> (db, sendNotFound ''Category not found'')
           | Some existing \<Rightarrow>
               if categoryService_hasProducts db cid then
                 (db, sendConflict ''Cannot delete category with associated products'')
               else
                 (case categoryService_delete db cid of
                    Inl e \<Rightarrow> (db, errorHandler env e)
                  | Inr (db', deleted) \<Rightarrow> (db', sendNoContent))))"

definition productController_getAll :: "Env \<Rightarrow> Database \<Rightarrow> query \<Rightarrow> Database \<times> Response" where
  "productController_getAll env db q =
     (case productQuerySchema q of
        Invalid iss \<Rightarrow> (db, sendBadRequest ''Invalid query parameters'' (Some (issuesMessage iss)))
      | Valid query \<Rightarrow>
          (case productService_findAll db query of
             Inl e \<Rightarrow> (db, errorHandler env e)
           | Inr (rows, mt) \<Rightarrow>
               (db, sendSuccess (ProductList rows) ''Products retrieved successfully''
                      200 (Some mt))))"

definition productController_create :: "Env \<Rightarrow> Database \<Rightarrow> json \<Rightarrow> Database \<times> Response" where
  "productController_create env db b =
     (case createProductSchema b of
        Inl e \<Rightarrow> (db, errorHandler env e)
      | Inr (Invalid iss) \<Rightarrow> (db, sendBadRequest ''Validation failed'' (Some (issuesMessage iss)))
      | Inr (Valid inp) \<Rightarrow>
          (case categoryService_findById db (cp_categoryId inp) of
             None \<Rightarrow> (db, sendBadRequest ''Category not found'' None)
           | Some category \<Rightarrow>
               (case productService_findBySku db (cp_sku inp) of
                  Some existingSku \<Rightarrow> (db, sendConflict ''Product with this SKU already exists'')
                | None \<Rightarrow>
                    (case productService_create env db inp of
                       Inl e \<Rightarrow> (db, errorHandler env e)
                     | Inr (db', product) \<Rightarrow>
                         (db', sendCreated (ProductData product) ''Product created successfully'')))))"

definition productController_toggleActive ::
  "Env \<Rightarrow> Database \<Rightarrow> string \<Rightarrow> Database \<times> Response" where
  "productController_toggleActive env db i =
     (case productIdParamSchema i of
        Invalid iss \<Rightarrow> (db, sendBadRequest ''Invalid product ID'' (Some (issuesMessage iss)))
      | Valid pid \<Rightarrow>
          (case productService_toggleActive db pid of
             Inl e \<Rightarrow> (db, errorHandler env e)
           | Inr (db', None) \<Rightarrow> (db', sendNotFound ''Product not found'')
           | Inr (db', Some product) \<Rightarrow>
               (db', sendSuccess (ProductData product)
                       (''Product '' @ (if p_isActive product then ''activated'' else ''deactivated'')
                        @ '' successfully'')
                       200 None)))"

section \<open>Example data\<close>

text \<open>A small catalogue: two categories, of which only the first has a product.\<close>

definition exampleEnv :: Env where
  "exampleEnv = \<lparr>NODE_ENV = None, newId = ''33333333-3333-4333-8333-333333333333'', now = 30\<rparr>"

definition books :: Category where
  "books = \<lparr>c_id = ''11111111-1111-4111-8111-111111111111'', c_name = ''Books'',
             c_description = None, c_createdAt = 10, c_updatedAt = 10\<rparr>"

definition games :: Category where
  "games = \<lparr>c_id = ''22222222-2222-4222-8222-222222222222'', c_name = ''Games'',
             c_description = Some ''Board games'', c_createdAt = 20, c_updatedAt = 20\<rparr>"

definition novel :: Product where
  "novel = \<lparr>p_id = ''aaaaaaaa-aaaa-4aaa-8aaa-aaaaaaaaaaaa'', p_name = ''Novel'',
             p_description = Some ''A paperback'', p_price = 25 / 2, p_stock = 3,
             p_sku = ''X-1'', p_isActive = True,
             p_categoryId = ''11111111-1111-4111-8111-111111111111'',
             p_createdAt = 15, p_updatedAt = 15\<rparr>"

definition shop :: Database where
  "shop = \<lparr>categories = [books, games], products = [novel]\<rparr>"

text \<open>
  Three bodies of \<^verbatim>\<open>POST /products\<close>. The first repeats the sku of \<open>novel\<close> in its category;
  the second repeats it with a well-formed \<^verbatim>\<open>categoryId\<close> that no category has; the third
  has a new sku and the price \<^verbatim>\<open>"abc"\<close>.
\<close>

definition sameSkuBody :: json where
  "sameSkuBody = JObject [(''name'', JString ''Atlas''), (''price'', JString ''12.50''),
     (''sku'', JString ''X-1''),
     (''categoryId'', JString ''11111111-1111-4111-8111-111111111111'')]"

definition sameSkuNoCategoryBody :: json where
  "sameSkuNoCategoryBody = JObject [(''name'', JString ''Atlas''), (''price'', JNumber (Fin 5)),
     (''sku'', JString ''X-1''),
     (''categoryId'', JString ''99999999-9999-4999-8999-999999999999'')]"

definition badPriceBody :: json where
  "badPriceBody = JObject [(''name'', JString ''Atlas''), (''price'', JString ''abc''),
     (''sku'', JString ''X-2''),
     (''categoryId'', JString ''11111111-1111-4111-8111-111111111111'')]"

text \<open>Two list queries: the second page of one product a page, the first of one category a page.\<close>

definition secondProductPage :: ProductQuery where
  "secondProductPage = \<lparr>pq_page = 2, pq_limit = 1, pq_search = None, pq_categoryId = None,
     pq_isActive = None, pq_minPrice = None, pq_maxPrice = None,
     pq_sortBy = SortCreatedAt, pq_sortOrder = Desc\<rparr>"

definition firstCategoryPage :: CategoryQuery where
  "firstCategoryPage = \<lparr>cq_page = 1, cq_limit = 1, cq_search = None\<rparr>"

text \<open>
  Two partial updates: one renames a product and sets its description to \<^verbatim>\<open>null\<close>, the other
  sets the description of a category to \<^verbatim>\<open>null\<close>.
\<close>

definition renameAndClear :: UpdateProductInput where
  "renameAndClear = \<lparr>up_name = Some ''Atlas'', up_description = Some None, up_price = None,
     up_stock = None, up_sku = None, up_isActive = None, up_categoryId = None\<rparr>"

definition clearDescription :: UpdateCategoryInput where
  "clearDescription = \<lparr>uc_name = None, uc_description = Some None\<rparr>"

text \<open>
  A body of \<^verbatim>\<open>POST /products\<close> with a new sku, the row it makes in \<open>exampleEnv\<close>, and a list
  query with both price bounds.
\<close>

definition atlasBody :: json where
  "atlasBody = JObject [(''name'', JString '' Atlas ''), (''price'', JString ''12.50''),
     (''sku'', JString ''X-2''),
     (''categoryId'', JString ''11111111-1111-4111-8111-111111111111'')]"

definition atlas :: Product where
  "atlas = \<lparr>p_id = ''33333333-3333-4333-8333-333333333333'', p_name = ''Atlas'',
             p_description = None, p_price = 25 / 2, p_stock = 0, p_sku = ''X-2'',
             p_isActive = True, p_categoryId = ''11111111-1111-4111-8111-111111111111'',
             p_createdAt = 30, p_updatedAt = 30\<rparr>"

definition priceRange :: ProductQuery where
  "priceRange = \<lparr>pq_page = 1, pq_limit = 10, pq_search = None, pq_categoryId = None,
     pq_isActive = None, pq_minPrice = Some (Fin 10), pq_maxPrice = Some (Fin (25 / 2)),
     pq_sortBy = SortCreatedAt, pq_sortOrder = Desc\<rparr>"

section \<open>Properties\<close>

subsection \<open>Responses\<close>

lemma statusCode_sendError [simp]: "statusCode (sendError msg code err) = code"
  by (simp add: sendError_def)

lemma statusCode_sendSuccess [simp]: "statusCode (sendSuccess d msg code mt) = code"
  by (simp add: sendSuccess_def)

lemma statusCode_helpers [simp]:
  "statusCode (sendBadRequest msg err) = 400"
  "statusCode (sendNotFound msg) = 404"
  "statusCode (sendConflict msg) = 409"
  "statusCode (sendInternalError err) = 500"
  "statusCode (sendCreated d msg) = 201"
  "statusCode sendNoContent = 204"
  by (simp_all add: sendBadRequest_def sendNotFound_def sendConflict_def sendInternalError_def
      sendCreated_def sendNoContent_def)

lemma body_sendError [simp]:
  "body (sendError msg code err) =
     Some \<lparr>success = False, message = msg, data = None, error = truthy err, meta = None\<rparr>"
  by (simp add: sendError_def)

subsection \<open>The error handler\<close>

text \<open>
  C9. Of an error named \<^verbatim>\<open>PrismaClientKnownRequestError\<close>, the error of a request the
  database refused: code \<^verbatim>\<open>P2002\<close> (unique constraint) gives 400 with a message that names
  the first field of \<^verbatim>\<open>meta.target\<close> (the word \<^verbatim>\<open>field\<close> when the error carries none);
  \<^verbatim>\<open>P2025\<close> (not found) gives 404; \<^verbatim>\<open>P2003\<close> (foreign key) gives 400; any other code,
  or none, gives 500 with the fixed message \<^verbatim>\<open>Internal server error\<close> and the fixed detail
  \<^verbatim>\<open>Database error occurred\<close>, whatever the error's own message is. An error of any
  other name, but for \<^verbatim>\<open>PrismaClientValidationError\<close>, also gives 500 with that fixed message.
  (\<^verbatim>\<open>PrismaClientValidationError\<close>, which the client raises on a malformed query before the
  database is asked, has a branch of its own in the handler and gives 400.)
\<close>

theorem errorHandler_database_errors:
  "(code = Some ''P2002'' \<longrightarrow>
      statusCode (errorHandler env (Error ''PrismaClientKnownRequestError'' msg code target)) = 400
      \<and> map_option message (body (errorHandler env (Error ''PrismaClientKnownRequestError'' msg code target)))
          = Some (''A record with this '' @ targetField target @ '' already exists'')
      \<and> (\<forall>f fs. target = Some (f # fs) \<and> f \<noteq> [] \<longrightarrow> targetField target = f))
   \<and> (code = Some ''P2025'' \<longrightarrow>
      statusCode (errorHandler env (Error ''PrismaClientKnownRequestError'' msg code target)) = 404)
   \<and> (code = Some ''P2003'' \<longrightarrow>
      statusCode (errorHandler env (Error ''PrismaClientKnownRequestError'' msg code target)) = 400)
   \<and> (code \<noteq> Some ''P2002'' \<and> code \<noteq> Some ''P2025'' \<and> code \<noteq> Some ''P2003'' \<longrightarrow>
      errorHandler env (Error ''PrismaClientKnownRequestError'' msg code target)
        = \<lparr>statusCode = 500,
           body = Some \<lparr>success = False, message = ''Internal server error'', data = None,
                        error = Some ''Database error occurred'', meta = None\<rparr>\<rparr>)
   \<and> (name \<noteq> ''PrismaClientKnownRequestError'' \<and> name \<noteq> ''PrismaClientValidationError'' \<longrightarrow>
      statusCode (errorHandler env (Error name msg code target)) = 500
      \<and> map_option message (body (errorHandler env (Error name msg code target)))
          = Some ''Internal server error'')"
  by (simp add: errorHandler_def sendBadRequest_def sendNotFound_def sendInternalError_def
      sendError_def truthy_def targetField_def)

theorem errorHandler_database_errors_witness:
  "statusCode (errorHandler exampleEnv
      (Error ''PrismaClientKnownRequestError'' ''Unique constraint failed'' (Some ''P2002'') (Some [''sku''])))
     = 400
   \<and> map_option message (body (errorHandler exampleEnv
      (Error ''PrismaClientKnownRequestError'' ''Unique constraint failed'' (Some ''P2002'') (Some [''sku'']))))
     = Some ''A record with this sku already exists''
   \<and> statusCode (errorHandler exampleEnv
      (Error ''PrismaClientKnownRequestError'' ''No record'' (Some ''P2025'') None)) = 404
   \<and> statusCode (errorHandler exampleEnv
      (Error ''PrismaClientKnownRequestError'' ''Foreign key'' (Some ''P2003'') None)) = 400
   \<and> statusCode (errorHandler exampleEnv
      (Error ''PrismaClientKnownRequestError'' ''Timed out'' (Some ''P2024'') None)) = 500
   \<and> statusCode (errorHandler exampleEnv
      (Error ''PrismaClientUnknownRequestError'' ''Timed out'' (Some ''P2024'') None)) = 500"
  using errorHandler_database_errors [where code = "Some ''P2002''" and env = exampleEnv
        and msg = "''Unique constraint failed''" and target = "Some [''sku'']"]
    errorHandler_database_errors [where code = "Some ''P2025''" and env = exampleEnv
        and msg = "''No record''" and target = None]
    errorHandler_database_errors [where code = "Some ''P2003''" and env = exampleEnv
        and msg = "''Foreign key''" and target = None]
    errorHandler_database_errors [where code = "Some ''P2024''" and env = exampleEnv
        and msg = "''Timed out''" and target = None
        and name = "''PrismaClientUnknownRequestError''"]
  by (simp add: targetField_def)

subsection \<open>Identifiers and rows\<close>

lemma isUuid_examples:
  "isUuid ''aaaaaaaa-aaaa-4aaa-8aaa-aaaaaaaaaaaa''"
  "isUuid ''11111111-1111-4111-8111-111111111111''"
  "isUuid ''22222222-2222-4222-8222-222222222222''"
  "isUuid ''99999999-9999-4999-8999-999999999999''"
  by (simp_all add: isUuid_def digitValue_def)

lemma applyProductUpdate_isActive:
  "applyProductUpdate \<lparr>d_name = None, d_description = None, d_price = None, d_stock = None,
       d_sku = None, d_isActive = Some b, d_categoryId = None\<rparr> q = q\<lparr>p_isActive := b\<rparr>"
  by (simp add: applyProductUpdate_def writeColumn_def)

lemma find_id_after_update:
  assumes "find (\<lambda>p. p_id p = i) rows = Some p" and "\<And>q. p_id (f q) = p_id q"
  shows "find (\<lambda>p. p_id p = i) (map (\<lambda>q. if p_id q = i then f q else q) rows) = Some (f p)"
  using assms by (induction rows) (auto split: if_splits)

lemma uuidSchema_valid: "isUuid i \<Longrightarrow> uuidSchema key msg (JString i) = Valid i"
  by (simp add: uuidSchema_def)

subsection \<open>Toggling the active flag\<close>

text \<open>
  C7. \<^verbatim>\<open>toggleActive\<close> on an id that no product has returns \<^verbatim>\<open>null\<close> and leaves the database as
  it was, and the controller answers 404. On the id of a product \<open>p\<close> it writes the negation
  of the flag of \<open>p\<close> to the row with that id, every other column and every other row as
  before, and the controller answers 200 with the updated record. The service does so for
  every id; the controller once the id has passed \<^verbatim>\<open>productIdParamSchema\<close>.
\<close>

theorem toggleActive_negates_flag:
  "(productService_findById db i = None \<longrightarrow>
      productService_toggleActive db i = Inr (db, None)
      \<and> (isUuid i \<longrightarrow>
           fst (productController_toggleActive env db i) = db
           \<and> statusCode (snd (productController_toggleActive env db i)) = 404))
   \<and> (\<forall>p. productService_findById db i = Some p \<longrightarrow>
      productService_toggleActive db i =
        Inr (db\<lparr>products := map (\<lambda>q. if p_id q = i then q\<lparr>p_isActive := \<not> p_isActive p\<rparr> else q)
                                (products db)\<rparr>,
             Some (p\<lparr>p_isActive := \<not> p_isActive p\<rparr>))
      \<and> (isUuid i \<longrightarrow>
           fst (productController_toggleActive env db i) =
             db\<lparr>products := map (\<lambda>q. if p_id q = i then q\<lparr>p_isActive := \<not> p_isActive p\<rparr> else q)
                                (products db)\<rparr>
           \<and> productService_findById (fst (productController_toggleActive env db i)) i =
               Some (p\<lparr>p_isActive := \<not> p_isActive p\<rparr>)
           \<and> statusCode (snd (productController_toggleActive env db i)) = 200
           \<and> map_option data (body (snd (productController_toggleActive env db i))) =
               Some (Some (ProductData (p\<lparr>p_isActive := \<not> p_isActive p\<rparr>)))))"
proof (intro conjI impI allI)
  assume none: "productService_findById db i = None"
  then show svc: "productService_toggleActive db i = Inr (db, None)"
    by (simp add: productService_toggleActive_def productService_findById_def)
  assume "isUuid i"
  with svc show "fst (productController_toggleActive env db i) = db"
    and "statusCode (snd (productController_toggleActive env db i)) = 404"
    by (simp_all add: productController_toggleActive_def productIdParamSchema_def uuidSchema_valid)
next
  fix p :: Product
  let ?p' = "p\<lparr>p_isActive := \<not> p_isActive p\<rparr>"
  let ?db' = "db\<lparr>products := map (\<lambda>q. if p_id q = i then q\<lparr>p_isActive := \<not> p_isActive p\<rparr> else q)
                                (products db)\<rparr>"
  assume some: "productService_findById db i = Some p"
  then have found: "find (\<lambda>p. p_id p = i) (products db) = Some p"
    by (simp add: productService_findById_def)
  then show svc: "productService_toggleActive db i = Inr (?db', Some ?p')"
    by (simp add: productService_toggleActive_def updateProduct_def applyProductUpdate_isActive)
  assume uuid: "isUuid i"
  with svc show "fst (productController_toggleActive env db i) = ?db'"
    by (simp add: productController_toggleActive_def productIdParamSchema_def uuidSchema_valid)
  then show "productService_findById (fst (productController_toggleActive env db i)) i = Some ?p'"
    using find_id_after_update [OF found, of "\<lambda>q. q\<lparr>p_isActive := \<not> p_isActive p\<rparr>"]
    by (simp add: productService_findById_def)
  from svc uuid show "statusCode (snd (productController_toggleActive env db i)) = 200"
    by (simp add: productController_toggleActive_def productIdParamSchema_def uuidSchema_valid)
  from svc uuid show "map_option data (body (snd (productController_toggleActive env db i))) =
      Some (Some (ProductData ?p'))"
    by (simp add: productController_toggleActive_def productIdParamSchema_def uuidSchema_valid
        sendSuccess_def)
qed

theorem toggleActive_negates_flag_witness:
  "productController_toggleActive exampleEnv shop ''aaaaaaaa-aaaa-4aaa-8aaa-aaaaaaaaaaaa'' =
     (shop\<lparr>products := [novel\<lparr>p_isActive := False\<rparr>]\<rparr>,
      sendSuccess (ProductData (novel\<lparr>p_isActive := False\<rparr>)) ''Product deactivated successfully'' 200 None)
   \<and> statusCode (snd (productController_toggleActive exampleEnv shop ''99999999-9999-4999-8999-999999999999'')) = 404
   \<and> fst (productController_toggleActive exampleEnv shop ''99999999-9999-4999-8999-999999999999'') = shop"
proof -
  have a: "productService_findById shop ''aaaaaaaa-aaaa-4aaa-8aaa-aaaaaaaaaaaa'' = Some novel"
    by (simp add: productService_findById_def shop_def novel_def)
  have b: "productService_findById shop ''99999999-9999-4999-8999-999999999999'' = None"
    by (simp add: productService_findById_def shop_def novel_def)
  have "productService_toggleActive shop ''aaaaaaaa-aaaa-4aaa-8aaa-aaaaaaaaaaaa'' =
      Inr (shop\<lparr>products := [novel\<lparr>p_isActive := False\<rparr>]\<rparr>, Some (novel\<lparr>p_isActive := False\<rparr>))"
    using toggleActive_negates_flag [where db = shop and i = "''aaaaaaaa-aaaa-4aaa-8aaa-aaaaaaaaaaaa''"
        and env = exampleEnv] a
    by (simp add: shop_def novel_def)
  then have c: "productController_toggleActive exampleEnv shop ''aaaaaaaa-aaaa-4aaa-8aaa-aaaaaaaaaaaa'' =
     (shop\<lparr>products := [novel\<lparr>p_isActive := False\<rparr>]\<rparr>,
      sendSuccess (ProductData (novel\<lparr>p_isActive := False\<rparr>)) ''Product deactivated successfully'' 200 None)"
    by (simp add: productController_toggleActive_def productIdParamSchema_def uuidSchema_valid
        isUuid_examples)
  show ?thesis
    using c toggleActive_negates_flag [where db = shop and i = "''99999999-9999-4999-8999-999999999999''"
        and env = exampleEnv] b isUuid_examples
    by simp
qed

subsection \<open>Deleting a category\<close>

lemma find_filter_other:
  "find (\<lambda>c. c_id c = i) (filter (\<lambda>k. c_id k \<noteq> i) rows) = None"
  by (simp add: find_None_iff)

text \<open>
  C2. Deleting an existing category (its id has passed \<^verbatim>\<open>categoryIdParamSchema\<close> and
  \<^verbatim>\<open>findById\<close> finds it): when some product references it, the answer is 409 and the
  database is as before; when none does, the answer is 204, the category is gone and the
  products are as before.
\<close>

theorem category_delete_referential_integrity:
  assumes "isUuid i" and "categoryService_findById db i = Some c"
  shows "((\<exists>p \<in> set (products db). p_categoryId p = i) \<longrightarrow>
            categoryController_delete env db i =
              (db, sendConflict ''Cannot delete category with associated products'')
            \<and> statusCode (snd (categoryController_delete env db i)) = 409)
       \<and> (\<not> (\<exists>p \<in> set (products db). p_categoryId p = i) \<longrightarrow>
            categoryController_delete env db i =
              (db\<lparr>categories := filter (\<lambda>k. c_id k \<noteq> i) (categories db)\<rparr>, sendNoContent)
            \<and> statusCode (snd (categoryController_delete env db i)) = 204
            \<and> categoryService_findById (fst (categoryController_delete env db i)) i = None
            \<and> products (fst (categoryController_delete env db i)) = products db)"
proof -
  have found: "find (\<lambda>c. c_id c = i) (categories db) = Some c"
    using assms(2) by (simp add: categoryService_findById_def)
  have has: "categoryService_hasProducts db i \<longleftrightarrow> (\<exists>p \<in> set (products db). p_categoryId p = i)"
    by (auto simp: categoryService_hasProducts_def count_def filter_empty_conv)
  show ?thesis
  proof (cases "\<exists>p \<in> set (products db). p_categoryId p = i")
    case True
    then show ?thesis
      using assms has
      by (simp add: categoryController_delete_def categoryIdParamSchema_def uuidSchema_valid)
  next
    case False
    then have "categoryController_delete env db i =
        (db\<lparr>categories := filter (\<lambda>k. c_id k \<noteq> i) (categories db)\<rparr>, sendNoContent)"
      using assms has found
      by (simp add: categoryController_delete_def categoryIdParamSchema_def uuidSchema_valid
          categoryService_delete_def deleteCategory_def)
    with False show ?thesis
      by (simp add: categoryService_findById_def find_filter_other)
  qed
qed

theorem category_delete_referential_integrity_witness:
  "categoryController_delete exampleEnv shop ''11111111-1111-4111-8111-111111111111'' =
     (shop, sendConflict ''Cannot delete category with associated products'')
   \<and> categoryController_delete exampleEnv shop ''22222222-2222-4222-8222-222222222222'' =
     (shop\<lparr>categories := [books]\<rparr>, sendNoContent)"
proof -
  have a: "categoryService_findById shop ''11111111-1111-4111-8111-111111111111'' = Some books"
    and b: "categoryService_findById shop ''22222222-2222-4222-8222-222222222222'' = Some games"
    by (simp_all add: categoryService_findById_def shop_def books_def games_def)
  show ?thesis
    using category_delete_referential_integrity [OF isUuid_examples(2) a, of exampleEnv]
      category_delete_referential_integrity [OF isUuid_examples(3) b, of exampleEnv]
    by (simp add: shop_def books_def games_def novel_def)
qed

subsection \<open>Creating a product\<close>

lemma parse_sameSkuBody:
  "createProductSchema sameSkuBody =
     Inr (Valid \<lparr>cp_name = ''Atlas'', cp_description = None, cp_price = 25 / 2, cp_stock = 0,
                 cp_sku = ''X-1'', cp_isActive = True,
                 cp_categoryId = ''11111111-1111-4111-8111-111111111111''\<rparr>)"
  by code_simp

lemma parse_sameSkuNoCategoryBody:
  "createProductSchema sameSkuNoCategoryBody =
     Inr (Valid \<lparr>cp_name = ''Atlas'', cp_description = None, cp_price = 5, cp_stock = 0,
                 cp_sku = ''X-1'', cp_isActive = True,
                 cp_categoryId = ''99999999-9999-4999-8999-999999999999''\<rparr>)"
  by code_simp

lemma parse_badPriceBody:
  "createProductSchema badPriceBody = Inl (Error ''Error'' ''Invalid price format'' None None)"
  by code_simp

lemma find_sku_Some: "\<exists>p \<in> set rows. p_sku p = s \<Longrightarrow> find (\<lambda>p. p_sku p = s) rows \<noteq> None"
  by (auto simp: find_None_iff)

lemma productController_create_cases:
  "productController_create env db b = (db', r) \<Longrightarrow>
     (db' = db \<and> statusCode r \<noteq> 201)
     \<or> (\<exists>inp row. createProductSchema b = Inr (Valid inp)
           \<and> productService_create env db inp = Inr (db', row)
           \<and> productService_findBySku db (cp_sku inp) = None \<and> statusCode r = 201)"
  by (auto simp: productController_create_def errorHandler_def
      split: sum.splits parsed.splits option.splits js_error.splits if_splits)

lemma productService_create_appends:
  "productService_create env db inp = Inr (db', row) \<Longrightarrow>
     products db' = products db @ [row] \<and> p_sku row = cp_sku inp \<and> categories db' = categories db"
  by (auto simp: productService_create_def insertProduct_def split: if_splits)

text \<open>
  C1, as stated, fails: in \<open>shop\<close> a product has the sku \<^verbatim>\<open>X-1\<close>, and a valid body with that
  sku and the id of no category is answered 400 (\<^verbatim>\<open>Category not found\<close>), not 409, since the
  controller looks the category up before the sku.
\<close>

theorem create_with_existing_sku_counterexample:
  "productService_findBySku shop ''X-1'' = Some novel
   \<and> createProductSchema sameSkuNoCategoryBody =
     Inr (Valid \<lparr>cp_name = ''Atlas'', cp_description = None, cp_price = 5, cp_stock = 0,
                 cp_sku = ''X-1'', cp_isActive = True,
                 cp_categoryId = ''99999999-9999-4999-8999-999999999999''\<rparr>)
   \<and> productController_create exampleEnv shop sameSkuNoCategoryBody =
     (shop, sendBadRequest ''Category not found'' None)
   \<and> statusCode (snd (productController_create exampleEnv shop sameSkuNoCategoryBody)) = 400
   \<and> statusCode (snd (productController_create exampleEnv shop sameSkuNoCategoryBody)) \<noteq> 409"
proof -
  have a: "productService_findBySku shop ''X-1'' = Some novel"
    by (simp add: productService_findBySku_def shop_def novel_def)
  have b: "categoryService_findById shop ''99999999-9999-4999-8999-999999999999'' = None"
    by (simp add: categoryService_findById_def shop_def books_def games_def)
  have c: "productController_create exampleEnv shop sameSkuNoCategoryBody =
     (shop, sendBadRequest ''Category not found'' None)"
    by (simp add: productController_create_def parse_sameSkuNoCategoryBody b)
  from a c show ?thesis
    by (simp add: parse_sameSkuNoCategoryBody)
qed

text \<open>
  C1, amended. When the body passes validation and a product already has its sku, the
  database is left as it was and the answer is 409 if the body's category exists and 400
  if it does not. And whatever the body is, creating never makes two products share an
  sku: if the skus of the products are distinct before the request, they are after it.
\<close>

theorem create_with_existing_sku:
  "(createProductSchema b = Inr (Valid inp) \<and> (\<exists>p \<in> set (products db). p_sku p = cp_sku inp) \<longrightarrow>
      fst (productController_create env db b) = db
      \<and> statusCode (snd (productController_create env db b)) =
          (if categoryService_findById db (cp_categoryId inp) = None then 400 else 409))
   \<and> (distinct (map p_sku (products db)) \<longrightarrow>
        distinct (map p_sku (products (fst (productController_create env db b)))))"
proof -
  have first: "fst (productController_create env db b) = db
      \<and> statusCode (snd (productController_create env db b)) =
          (if categoryService_findById db (cp_categoryId inp) = None then 400 else 409)"
    if h: "createProductSchema b = Inr (Valid inp) \<and> (\<exists>p \<in> set (products db). p_sku p = cp_sku inp)"
  proof -
    from h have "productService_findBySku db (cp_sku inp) \<noteq> None"
      by (simp add: productService_findBySku_def find_sku_Some)
    with h show ?thesis
      by (auto simp: productController_create_def split: option.splits)
  qed
  have second: "distinct (map p_sku (products (fst (productController_create env db b))))"
    if d: "distinct (map p_sku (products db))"
  proof -
    obtain db' r where eq: "productController_create env db b = (db', r)"
      by (cases "productController_create env db b")
    from productController_create_cases [OF eq] show ?thesis
    proof
      assume "db' = db \<and> statusCode r \<noteq> 201"
      with d eq show ?thesis by simp
    next
      assume "\<exists>inp row. createProductSchema b = Inr (Valid inp)
           \<and> productService_create env db inp = Inr (db', row)
           \<and> productService_findBySku db (cp_sku inp) = None \<and> statusCode r = 201"
      then obtain inp' row where c: "productService_create env db inp' = Inr (db', row)"
        and n: "productService_findBySku db (cp_sku inp') = None"
        by blast
      from n have "cp_sku inp' \<notin> p_sku ` set (products db)"
        by (auto simp: productService_findBySku_def find_None_iff)
      with d productService_create_appends [OF c] eq show ?thesis by simp
    qed
  qed
  from first second show ?thesis by blast
qed

theorem create_with_existing_sku_witness:
  "fst (productController_create exampleEnv shop sameSkuBody) = shop
   \<and> statusCode (snd (productController_create exampleEnv shop sameSkuBody)) = 409
   \<and> fst (productController_create exampleEnv shop sameSkuNoCategoryBody) = shop
   \<and> statusCode (snd (productController_create exampleEnv shop sameSkuNoCategoryBody)) = 400
   \<and> distinct (map p_sku (products (fst (productController_create exampleEnv shop badPriceBody))))"
proof -
  have a: "\<exists>p \<in> set (products shop). p_sku p = ''X-1''"
    by (simp add: shop_def novel_def)
  have b: "categoryService_findById shop ''11111111-1111-4111-8111-111111111111'' \<noteq> None"
    and c: "categoryService_findById shop ''99999999-9999-4999-8999-999999999999'' = None"
    by (simp_all add: categoryService_findById_def shop_def books_def games_def)
  have d: "distinct (map p_sku (products shop))"
    by (simp add: shop_def)
  show ?thesis
    using create_with_existing_sku [where b = sameSkuBody and db = shop and env = exampleEnv
        and inp = "\<lparr>cp_name = ''Atlas'', cp_description = None, cp_price = 25 / 2, cp_stock = 0,
                 cp_sku = ''X-1'', cp_isActive = True,
                 cp_categoryId = ''11111111-1111-4111-8111-111111111111''\<rparr>"]
      create_with_existing_sku [where b = sameSkuNoCategoryBody and db = shop and env = exampleEnv
        and inp = "\<lparr>cp_name = ''Atlas'', cp_description = None, cp_price = 5, cp_stock = 0,
                 cp_sku = ''X-1'', cp_isActive = True,
                 cp_categoryId = ''99999999-9999-4999-8999-999999999999''\<rparr>"]
      create_with_existing_sku [where b = badPriceBody and db = shop and env = exampleEnv]
      a b c d
    by (simp add: parse_sameSkuBody parse_sameSkuNoCategoryBody)
qed

text \<open>
  C5 fails on the code at a price that is a string with no number at its front: the
  transform throws a plain \<^verbatim>\<open>Error\<close>, which leaves \<^verbatim>\<open>safeParse\<close>, is caught by the controller's
  \<^verbatim>\<open>catch\<close> and reaches the error handler as an unknown error. The answer is 500, not 400.
\<close>

theorem create_non_numeric_price_is_500:
  "createProductSchema badPriceBody = Inl (Error ''Error'' ''Invalid price format'' None None)
   \<and> productController_create exampleEnv shop badPriceBody = (shop, sendInternalError None)
   \<and> statusCode (snd (productController_create exampleEnv shop badPriceBody)) = 500"
  by (simp add: productController_create_def parse_badPriceBody errorHandler_def exampleEnv_def)

subsection \<open>Lists and pages\<close>

lemma ceiling_divide_pages:
  fixes n l :: int
  assumes "0 < l"
  shows "\<lceil>(of_int n :: rat) / of_int l\<rceil> = (n + l - 1) div l"
proof -
  define q r where "q = n div l" and "r = n mod l"
  have n: "n = l * q + r" and r: "0 \<le> r" "r < l"
    using assms by (simp_all add: q_def r_def)
  have "\<lceil>(of_int n :: rat) / of_int l\<rceil> = - (- n div l)"
    by (rule ceiling_divide_eq_div)
  also have "\<dots> = (n + l - 1) div l"
  proof (cases "r = 0")
    case True
    have "(n + l - 1) div l = q"
      by (rule int_div_pos_eq [where r = "l - 1"]) (use n True assms in \<open>simp_all add: algebra_simps\<close>)
    moreover have "- (- n div l) = q"
      using True assms by (simp add: zdiv_zminus1_eq_if q_def r_def)
    ultimately show ?thesis by simp
  next
    case False
    have "(n + l - 1) div l = q + 1"
      by (rule int_div_pos_eq [where r = "r - 1"]) (use n False r in \<open>simp_all add: algebra_simps\<close>)
    moreover have "- (- n div l) = q + 1"
      using False assms by (simp add: zdiv_zminus1_eq_if q_def r_def)
    ultimately show ?thesis by simp
  qed
  finally show ?thesis .
qed

lemma page_beyond_last:
  fixes n l p :: int
  assumes "0 < l" and "\<lceil>(of_int n :: rat) / of_int l\<rceil> < p"
  shows "n \<le> (p - 1) * l"
proof -
  from assms(2) have "\<lceil>(of_int n :: rat) / of_int l\<rceil> \<le> p - 1" by simp
  then have "(of_int n :: rat) / of_int l \<le> of_int (p - 1)"
    by (simp only: ceiling_le_iff)
  with assms(1) have "(of_int n :: rat) \<le> of_int (p - 1) * of_int l"
    by (simp add: pos_divide_le_eq)
  then have "(of_int n :: rat) \<le> of_int ((p - 1) * l)" by simp
  then show ?thesis by (simp only: of_int_le_iff)
qed

lemma length_orderRows [simp]: "length (orderRows dir key rows) = length rows"
  by (simp add: orderRows_def split: SortOrder.splits)

lemma length_orderProducts [simp]: "length (orderProducts col dir rows) = length rows"
  by (simp add: orderProducts_def split: SortField.splits)

lemma findMany_page:
  assumes "1 \<le> page" and "1 \<le> limit"
  shows "findMany cond orderBy ((page - 1) * limit) limit rows =
           Inr (take (nat limit) (drop (nat ((page - 1) * limit)) (orderBy (filter cond rows))))"
proof -
  have "0 \<le> (page - 1) * limit"
    using assms by (intro mult_nonneg_nonneg) simp_all
  then have "\<not> (page - 1) * limit < 0" by linarith
  then have "findMany cond orderBy ((page - 1) * limit) limit rows =
      (if 0 \<le> limit
       then Inr (take (nat limit) (drop (nat ((page - 1) * limit)) (orderBy (filter cond rows))))
       else Inr (rev (take (nat (- limit))
                   (drop (nat ((page - 1) * limit)) (rev (orderBy (filter cond rows)))))))"
    by (simp only: findMany_def Let_def if_False)
  with assms(2) show ?thesis by simp
qed

lemma totalPages_value:
  assumes "1 \<le> limit"
  shows "Math_ceil (divideInt n limit) = Fin (of_int \<lceil>(of_int n :: rat) / of_int limit\<rceil>)"
  using assms by (simp add: Math_ceil_def divideInt_def)

lemma productService_findAll_page:
  assumes "1 \<le> pq_page pq" and "1 \<le> pq_limit pq"
  shows "productService_findAll db pq =
           Inr (take (nat (pq_limit pq)) (drop (nat ((pq_page pq - 1) * pq_limit pq))
                  (orderProducts (pq_sortBy pq) (pq_sortOrder pq)
                     (filter (productMatches (productWhere pq)) (products db)))),
                \<lparr>m_page = pq_page pq, m_limit = pq_limit pq,
                 m_total = count (productMatches (productWhere pq)) (products db),
                 m_totalPages = Fin (of_int \<lceil>(of_int (count (productMatches (productWhere pq))
                   (products db)) :: rat) / of_int (pq_limit pq)\<rceil>)\<rparr>)"
  using assms
  by (simp add: productService_findAll_def findMany_page totalPages_value Let_def)

lemma categoryService_findAll_page:
  assumes "1 \<le> cq_page cq" and "1 \<le> cq_limit cq"
  shows "categoryService_findAll db cq =
           Inr (take (nat (cq_limit cq)) (drop (nat ((cq_page cq - 1) * cq_limit cq))
                  (orderRows Desc c_createdAt
                     (filter (categoryMatches (categoryWhere cq)) (categories db)))),
                \<lparr>m_page = cq_page cq, m_limit = cq_limit cq,
                 m_total = count (categoryMatches (categoryWhere cq)) (categories db),
                 m_totalPages = Fin (of_int \<lceil>(of_int (count (categoryMatches (categoryWhere cq))
                   (categories db)) :: rat) / of_int (cq_limit cq)\<rceil>)\<rparr>)"
  using assms
  by (simp add: categoryService_findAll_def findMany_page totalPages_value Let_def)

text \<open>
  C3. For a query with page \<open>p \<ge> 1\<close> and limit \<open>L \<ge> 1\<close>, and \<open>N\<close> rows matching its filter,
  \<^verbatim>\<open>findAll\<close> of either service returns the \<open>L\<close> rows after the first \<open>(p - 1) * L\<close> of the
  matching rows in their order, with the metadata \<open>page = p\<close>, \<open>limit = L\<close>, \<open>total = N\<close> and
  \<open>totalPages\<close> the ceiling of \<open>N / L\<close>, which is \<open>(N + L - 1) div L\<close>. For a page beyond
  \<open>totalPages\<close> the rows are the empty list, with the same metadata and no error.
\<close>

theorem findAll_pagination:
  fixes db :: Database and pq :: ProductQuery and cq :: CategoryQuery
  defines "pn \<equiv> count (productMatches (productWhere pq)) (products db)"
      and "cn \<equiv> count (categoryMatches (categoryWhere cq)) (categories db)"
  assumes "1 \<le> pq_page pq" and "1 \<le> pq_limit pq" and "1 \<le> cq_page cq" and "1 \<le> cq_limit cq"
  shows "productService_findAll db pq =
           Inr (take (nat (pq_limit pq)) (drop (nat ((pq_page pq - 1) * pq_limit pq))
                  (orderProducts (pq_sortBy pq) (pq_sortOrder pq)
                     (filter (productMatches (productWhere pq)) (products db)))),
                \<lparr>m_page = pq_page pq, m_limit = pq_limit pq, m_total = pn,
                 m_totalPages = Fin (of_int \<lceil>(of_int pn :: rat) / of_int (pq_limit pq)\<rceil>)\<rparr>)
       \<and> \<lceil>(of_int pn :: rat) / of_int (pq_limit pq)\<rceil> = (pn + pq_limit pq - 1) div pq_limit pq
       \<and> (\<lceil>(of_int pn :: rat) / of_int (pq_limit pq)\<rceil> < pq_page pq \<longrightarrow>
            (\<exists>mt. productService_findAll db pq = Inr ([], mt)))
       \<and> categoryService_findAll db cq =
           Inr (take (nat (cq_limit cq)) (drop (nat ((cq_page cq - 1) * cq_limit cq))
                  (orderRows Desc c_createdAt
                     (filter (categoryMatches (categoryWhere cq)) (categories db)))),
                \<lparr>m_page = cq_page cq, m_limit = cq_limit cq, m_total = cn,
                 m_totalPages = Fin (of_int \<lceil>(of_int cn :: rat) / of_int (cq_limit cq)\<rceil>)\<rparr>)
       \<and> \<lceil>(of_int cn :: rat) / of_int (cq_limit cq)\<rceil> = (cn + cq_limit cq - 1) div cq_limit cq
       \<and> (\<lceil>(of_int cn :: rat) / of_int (cq_limit cq)\<rceil> < cq_page cq \<longrightarrow>
            (\<exists>mt. categoryService_findAll db cq = Inr ([], mt)))"
proof -
  have p1: "productService_findAll db pq =
           Inr (take (nat (pq_limit pq)) (drop (nat ((pq_page pq - 1) * pq_limit pq))
                  (orderProducts (pq_sortBy pq) (pq_sortOrder pq)
                     (filter (productMatches (productWhere pq)) (products db)))),
                \<lparr>m_page = pq_page pq, m_limit = pq_limit pq, m_total = pn,
                 m_totalPages = Fin (of_int \<lceil>(of_int pn :: rat) / of_int (pq_limit pq)\<rceil>)\<rparr>)"
    using assms(3,4) by (simp add: productService_findAll_page pn_def)
  have p2: "\<lceil>(of_int pn :: rat) / of_int (pq_limit pq)\<rceil> = (pn + pq_limit pq - 1) div pq_limit pq"
    using assms(4) by (intro ceiling_divide_pages) simp
  have p3: "\<exists>mt. productService_findAll db pq = Inr ([], mt)"
    if "\<lceil>(of_int pn :: rat) / of_int (pq_limit pq)\<rceil> < pq_page pq"
  proof -
    have "pn \<le> (pq_page pq - 1) * pq_limit pq"
      using assms(4) that by (intro page_beyond_last) simp_all
    then have "length (filter (productMatches (productWhere pq)) (products db))
        \<le> nat ((pq_page pq - 1) * pq_limit pq)"
      by (simp add: pn_def count_def)
    with p1 show ?thesis by simp
  qed
  have c1: "categoryService_findAll db cq =
           Inr (take (nat (cq_limit cq)) (drop (nat ((cq_page cq - 1) * cq_limit cq))
                  (orderRows Desc c_createdAt
                     (filter (categoryMatches (categoryWhere cq)) (categories db)))),
                \<lparr>m_page = cq_page cq, m_limit = cq_limit cq, m_total = cn,
                 m_totalPages = Fin (of_int \<lceil>(of_int cn :: rat) / of_int (cq_limit cq)\<rceil>)\<rparr>)"
    using assms(5,6) by (simp add: categoryService_findAll_page cn_def)
  have c2: "\<lceil>(of_int cn :: rat) / of_int (cq_limit cq)\<rceil> = (cn + cq_limit cq - 1) div cq_limit cq"
    using assms(6) by (intro ceiling_divide_pages) simp
  have c3: "\<exists>mt. categoryService_findAll db cq = Inr ([], mt)"
    if "\<lceil>(of_int cn :: rat) / of_int (cq_limit cq)\<rceil> < cq_page cq"
  proof -
    have "cn \<le> (cq_page cq - 1) * cq_limit cq"
      using assms(6) that by (intro page_beyond_last) simp_all
    then have "length (filter (categoryMatches (categoryWhere cq)) (categories db))
        \<le> nat ((cq_page cq - 1) * cq_limit cq)"
      by (simp add: cn_def count_def)
    with c1 show ?thesis by simp
  qed
  from p1 p2 p3 c1 c2 c3 show ?thesis by blast
qed

theorem findAll_pagination_witness:
  "productService_findAll shop secondProductPage =
     Inr ([], \<lparr>m_page = 2, m_limit = 1, m_total = 1, m_totalPages = Fin 1\<rparr>)
   \<and> categoryService_findAll shop firstCategoryPage =
     Inr ([games], \<lparr>m_page = 1, m_limit = 1, m_total = 2, m_totalPages = Fin 2\<rparr>)"
  using findAll_pagination [where db = shop and pq = secondProductPage and cq = firstCategoryPage]
  by (simp add: secondProductPage_def firstCategoryPage_def shop_def books_def games_def novel_def
      count_def productMatches_def productWhere_def categoryMatches_def categoryWhere_def
      truthy_def orderRows_def orderProducts_def)

subsection \<open>What the query schemas let through\<close>

lemma checked_Valid_iff: "checked iss v = Valid n \<longleftrightarrow> iss = [] \<and> v = n"
  by (cases iss) simp_all

lemma both_Valid_iff: "both a b = Valid xy \<longleftrightarrow> (\<exists>x y. a = Valid x \<and> b = Valid y \<and> xy = (x, y))"
  by (cases a; cases b) auto

lemma both_Invalid_right: "\<exists>iss'. both a (Invalid iss) = Invalid iss'"
  by (cases a) simp_all

lemma both_Invalid_left: "\<exists>iss'. both (Invalid iss) b = Invalid iss'"
  by simp

lemma map_parsed_Valid_iff: "map_parsed f a = Valid y \<longleftrightarrow> (\<exists>x. a = Valid x \<and> y = f x)"
  by (cases a) auto

lemma positive_integer_bounds:
  assumes "isInteger n" and "numGreater n (Fin 0)"
  shows "1 \<le> toInt n" and "\<not> numGreater n (Fin b) \<Longrightarrow> toInt n \<le> \<lfloor>b\<rfloor>"
proof -
  from assms obtain r where n: "n = Fin r" and int: "r = of_int \<lfloor>r\<rfloor>" and pos: "0 < r"
    by (cases n) (auto simp: isInteger_def numGreater_def)
  from pos have "0 < \<lfloor>r\<rfloor>" using int by (metis of_int_0_less_iff)
  then show "1 \<le> toInt n" by (simp add: n toInt_def)
  assume "\<not> numGreater n (Fin b)"
  then have "r \<le> b" by (simp add: n numGreater_def)
  then show "toInt n \<le> \<lfloor>b\<rfloor>" by (simp add: n toInt_def floor_mono)
qed

lemma pageSchema_Valid: "pageSchema v = Valid n \<Longrightarrow> 1 \<le> n"
  by (auto simp: pageSchema_def Let_def checked_Valid_iff positive_integer_bounds(1)
      split: option.splits if_splits)

lemma limitSchema_Valid:
  assumes "limitSchema v = Valid n"
  shows "1 \<le> n \<and> n \<le> 100"
proof (cases v)
  case None
  with assms show ?thesis by (simp add: limitSchema_def)
next
  case (Some s)
  with assms have i: "isInteger (Number s)" and p: "numGreater (Number s) (Fin 0)"
    and m: "\<not> numGreater (Number s) (Fin 100)" and n: "n = toInt (Number s)"
    by (auto simp: limitSchema_def Let_def checked_Valid_iff split: if_splits)
  from positive_integer_bounds(2) [OF i p m] have "toInt (Number s) \<le> 100" by simp
  with positive_integer_bounds(1) [OF i p] show ?thesis by (simp add: n)
qed

lemma limitSchema_too_big:
  assumes "numGreater (Number s) (Fin 100)"
  shows "\<exists>iss. limitSchema (Some s) = Invalid iss"
proof -
  from assms have "\<not> isNaN (Number s)"
    by (cases "Number s") (auto simp: isNaN_def numGreater_def)
  with assms show ?thesis
    by (cases "(if isInteger (Number s) then [] else [Issue ''limit'' ''not_integer'']) @
         (if numGreater (Number s) (Fin 0) then [] else [Issue ''limit'' ''too_small''])")
       (simp_all add: limitSchema_def Let_def)
qed

lemma categoryQuerySchema_Valid:
  assumes "categoryQuerySchema q = Valid cq"
  shows "1 \<le> cq_page cq \<and> 1 \<le> cq_limit cq \<and> cq_limit cq \<le> 100 \<and> cq_search cq = q ''search''"
  using assms
  by (auto simp: categoryQuerySchema_def map_parsed_Valid_iff both_Valid_iff
      dest: pageSchema_Valid limitSchema_Valid)

lemma productQuerySchema_Valid:
  assumes "productQuerySchema q = Valid pq"
  shows "1 \<le> pq_page pq \<and> 1 \<le> pq_limit pq \<and> pq_limit pq \<le> 100
       \<and> sortBySchema (q ''sortBy'') = Valid (pq_sortBy pq)
       \<and> sortOrderSchema (q ''sortOrder'') = Valid (pq_sortOrder pq)"
  using assms
  by (auto simp: productQuerySchema_def map_parsed_Valid_iff both_Valid_iff
      dest: pageSchema_Valid limitSchema_Valid)

lemma categoryQuerySchema_limit_too_big:
  assumes "q ''limit'' = Some s" and "numGreater (Number s) (Fin 100)"
  shows "\<exists>iss. categoryQuerySchema q = Invalid iss"
proof -
  from limitSchema_too_big [OF assms(2)] obtain iss where "limitSchema (q ''limit'') = Invalid iss"
    using assms(1) by auto
  then show ?thesis
    by (cases "pageSchema (q ''page'')") (simp_all add: categoryQuerySchema_def)
qed

lemma productQuerySchema_limit_too_big:
  assumes "q ''limit'' = Some s" and "numGreater (Number s) (Fin 100)"
  shows "\<exists>iss. productQuerySchema q = Invalid iss"
proof -
  from limitSchema_too_big [OF assms(2)] obtain iss where "limitSchema (q ''limit'') = Invalid iss"
    using assms(1) by auto
  then show ?thesis
    by (cases "pageSchema (q ''page'')") (simp_all add: productQuerySchema_def)
qed

lemma categoryController_getAll_Valid:
  assumes "categoryQuerySchema q = Valid cq"
  shows "categoryController_getAll env db q =
     (db, sendSuccess
        (CategoryList (take (nat (cq_limit cq)) (drop (nat ((cq_page cq - 1) * cq_limit cq))
           (orderRows Desc c_createdAt (filter (categoryMatches (categoryWhere cq)) (categories db))))))
        ''Categories retrieved successfully'' 200
        (Some \<lparr>m_page = cq_page cq, m_limit = cq_limit cq,
               m_total = count (categoryMatches (categoryWhere cq)) (categories db),
               m_totalPages = Fin (of_int \<lceil>(of_int (count (categoryMatches (categoryWhere cq))
                   (categories db)) :: rat) / of_int (cq_limit cq)\<rceil>)\<rparr>))"
  using categoryQuerySchema_Valid [OF assms] assms
  by (simp add: categoryController_getAll_def categoryService_findAll_page)

lemma productController_getAll_Valid:
  assumes "productQuerySchema q = Valid pq"
  shows "productController_getAll env db q =
     (db, sendSuccess
        (ProductList (take (nat (pq_limit pq)) (drop (nat ((pq_page pq - 1) * pq_limit pq))
           (orderProducts (pq_sortBy pq) (pq_sortOrder pq)
              (filter (productMatches (productWhere pq)) (products db))))))
        ''Products retrieved successfully'' 200
        (Some \<lparr>m_page = pq_page pq, m_limit = pq_limit pq,
               m_total = count (productMatches (productWhere pq)) (products db),
               m_totalPages = Fin (of_int \<lceil>(of_int (count (productMatches (productWhere pq))
                   (products db)) :: rat) / of_int (pq_limit pq)\<rceil>)\<rparr>))"
  using productQuerySchema_Valid [OF assms] assms
  by (simp add: productController_getAll_def productService_findAll_page)

lemma length_take_limit: "1 \<le> l \<Longrightarrow> int (length (take (nat l) xs)) \<le> l"
  by (simp add: min_def) linarith

lemma categoryController_getAll_Invalid:
  "categoryQuerySchema q = Invalid iss \<Longrightarrow>
     categoryController_getAll env db q =
       (db, sendBadRequest ''Invalid query parameters'' (Some (issuesMessage iss)))"
  by (simp add: categoryController_getAll_def)

lemma productController_getAll_Invalid:
  "productQuerySchema q = Invalid iss \<Longrightarrow>
     productController_getAll env db q =
       (db, sendBadRequest ''Invalid query parameters'' (Some (issuesMessage iss)))"
  by (simp add: productController_getAll_def)

lemma limit_200_too_big: "numGreater (Number ''200'') (Fin 100)"
  by code_simp

lemma parse_limit_200:
  "categoryQuerySchema [''limit'' \<mapsto> ''200''] = Invalid [Issue ''limit'' ''too_big'']"
  "productQuerySchema [''limit'' \<mapsto> ''200''] = Invalid [Issue ''limit'' ''too_big'']"
  by code_simp+

lemma parse_limit_100:
  "categoryQuerySchema [''limit'' \<mapsto> ''100''] = Valid \<lparr>cq_page = 1, cq_limit = 100, cq_search = None\<rparr>"
  "productQuerySchema [''limit'' \<mapsto> ''100''] = Valid \<lparr>pq_page = 1, pq_limit = 100, pq_search = None,
     pq_categoryId = None, pq_isActive = None, pq_minPrice = None, pq_maxPrice = None,
     pq_sortBy = SortCreatedAt, pq_sortOrder = Desc\<rparr>"
  by code_simp+

text \<open>
  C6, as stated, fails: \<^verbatim>\<open>.max(100)\<close> is a rule of the two query schemas, so a request with
  \<^verbatim>\<open>limit=200\<close> does not pass validation and both list endpoints answer 400
  (\<^verbatim>\<open>Invalid query parameters\<close>); nothing is cut down to 100.
\<close>

theorem limit_above_100_is_rejected_counterexample:
  "categoryController_getAll exampleEnv shop [''limit'' \<mapsto> ''200''] =
     (shop, sendBadRequest ''Invalid query parameters'' (Some ''limit: too_big; ''))
   \<and> statusCode (snd (categoryController_getAll exampleEnv shop [''limit'' \<mapsto> ''200''])) = 400
   \<and> productController_getAll exampleEnv shop [''limit'' \<mapsto> ''200''] =
     (shop, sendBadRequest ''Invalid query parameters'' (Some ''limit: too_big; ''))
   \<and> statusCode (snd (productController_getAll exampleEnv shop [''limit'' \<mapsto> ''200''])) = 400"
  by (simp add: categoryController_getAll_Invalid productController_getAll_Invalid parse_limit_200
      issuesMessage_def)

text \<open>
  C6, amended. On both list endpoints, a \<^verbatim>\<open>limit\<close> that reads as a number greater than 100 is
  answered 400; and every answer 200 carries a page size between 1 and 100 in its metadata
  and at most that many rows.
\<close>

theorem limit_above_100_is_rejected:
  "(\<forall>s. q ''limit'' = Some s \<and> numGreater (Number s) (Fin 100) \<longrightarrow>
       statusCode (snd (categoryController_getAll env db q)) = 400
       \<and> statusCode (snd (productController_getAll env db q)) = 400)
   \<and> (statusCode (snd (categoryController_getAll env db q)) = 200 \<longrightarrow>
       (\<exists>rows mt. snd (categoryController_getAll env db q) =
            sendSuccess (CategoryList rows) ''Categories retrieved successfully'' 200 (Some mt)
          \<and> 1 \<le> m_limit mt \<and> m_limit mt \<le> 100 \<and> int (length rows) \<le> m_limit mt))
   \<and> (statusCode (snd (productController_getAll env db q)) = 200 \<longrightarrow>
       (\<exists>rows mt. snd (productController_getAll env db q) =
            sendSuccess (ProductList rows) ''Products retrieved successfully'' 200 (Some mt)
          \<and> 1 \<le> m_limit mt \<and> m_limit mt \<le> 100 \<and> int (length rows) \<le> m_limit mt))"
proof -
  have a: "statusCode (snd (categoryController_getAll env db q)) = 400
       \<and> statusCode (snd (productController_getAll env db q)) = 400"
    if "q ''limit'' = Some s \<and> numGreater (Number s) (Fin 100)" for s
    using categoryQuerySchema_limit_too_big [of q s] productQuerySchema_limit_too_big [of q s] that
    by (auto simp: categoryController_getAll_Invalid productController_getAll_Invalid)
  have b: "\<exists>rows mt. snd (categoryController_getAll env db q) =
            sendSuccess (CategoryList rows) ''Categories retrieved successfully'' 200 (Some mt)
          \<and> 1 \<le> m_limit mt \<and> m_limit mt \<le> 100 \<and> int (length rows) \<le> m_limit mt"
    if ok: "statusCode (snd (categoryController_getAll env db q)) = 200"
  proof (cases "categoryQuerySchema q")
    case (Valid cq)
    let ?rows = "take (nat (cq_limit cq)) (drop (nat ((cq_page cq - 1) * cq_limit cq))
           (orderRows Desc c_createdAt (filter (categoryMatches (categoryWhere cq)) (categories db))))"
    let ?mt = "\<lparr>m_page = cq_page cq, m_limit = cq_limit cq,
               m_total = count (categoryMatches (categoryWhere cq)) (categories db),
               m_totalPages = Fin (of_int \<lceil>(of_int (count (categoryMatches (categoryWhere cq))
                   (categories db)) :: rat) / of_int (cq_limit cq)\<rceil>)\<rparr>"
    from categoryQuerySchema_Valid [OF Valid]
    have "snd (categoryController_getAll env db q) =
            sendSuccess (CategoryList ?rows) ''Categories retrieved successfully'' 200 (Some ?mt)
          \<and> 1 \<le> m_limit ?mt \<and> m_limit ?mt \<le> 100 \<and> int (length ?rows) \<le> m_limit ?mt"
      using length_take_limit [of "cq_limit cq"]
      by (simp add: categoryController_getAll_Valid [OF Valid] del: length_take)
    then show ?thesis by blast
  next
    case (Invalid iss)
    with ok show ?thesis by (simp add: categoryController_getAll_Invalid)
  qed
  have c: "\<exists>rows mt. snd (productController_getAll env db q) =
            sendSuccess (ProductList rows) ''Products retrieved successfully'' 200 (Some mt)
          \<and> 1 \<le> m_limit mt \<and> m_limit mt \<le> 100 \<and> int (length rows) \<le> m_limit mt"
    if ok: "statusCode (snd (productController_getAll env db q)) = 200"
  proof (cases "productQuerySchema q")
    case (Valid pq)
    let ?rows = "take (nat (pq_limit pq)) (drop (nat ((pq_page pq - 1) * pq_limit pq))
           (orderProducts (pq_sortBy pq) (pq_sortOrder pq)
              (filter (productMatches (productWhere pq)) (products db))))"
    let ?mt = "\<lparr>m_page = pq_page pq, m_limit = pq_limit pq,
               m_total = count (productMatches (productWhere pq)) (products db),
               m_totalPages = Fin (of_int \<lceil>(of_int (count (productMatches (productWhere pq))
                   (products db)) :: rat) / of_int (pq_limit pq)\<rceil>)\<rparr>"
    from productQuerySchema_Valid [OF Valid]
    have "snd (productController_getAll env db q) =
            sendSuccess (ProductList ?rows) ''Products retrieved successfully'' 200 (Some ?mt)
          \<and> 1 \<le> m_limit ?mt \<and> m_limit ?mt \<le> 100 \<and> int (length ?rows) \<le> m_limit ?mt"
      using length_take_limit [of "pq_limit pq"]
      by (simp add: productController_getAll_Valid [OF Valid] del: length_take)
    then show ?thesis by blast
  next
    case (Invalid iss)
    with ok show ?thesis by (simp add: productController_getAll_Invalid)
  qed
  from a b c show ?thesis by blast
qed

theorem limit_above_100_is_rejected_witness:
  "statusCode (snd (categoryController_getAll exampleEnv shop [''limit'' \<mapsto> ''200''])) = 400
   \<and> statusCode (snd (productController_getAll exampleEnv shop [''limit'' \<mapsto> ''200''])) = 400
   \<and> (\<exists>rows mt. snd (categoryController_getAll exampleEnv shop [''limit'' \<mapsto> ''100'']) =
            sendSuccess (CategoryList rows) ''Categories retrieved successfully'' 200 (Some mt)
          \<and> 1 \<le> m_limit mt \<and> m_limit mt \<le> 100 \<and> int (length rows) \<le> m_limit mt)
   \<and> (\<exists>rows mt. snd (productController_getAll exampleEnv shop [''limit'' \<mapsto> ''100'']) =
            sendSuccess (ProductList rows) ''Products retrieved successfully'' 200 (Some mt)
          \<and> 1 \<le> m_limit mt \<and> m_limit mt \<le> 100 \<and> int (length rows) \<le> m_limit mt)"
proof -
  have a: "statusCode (snd (categoryController_getAll exampleEnv shop [''limit'' \<mapsto> ''100''])) = 200"
    and b: "statusCode (snd (productController_getAll exampleEnv shop [''limit'' \<mapsto> ''100''])) = 200"
    by (simp_all add: categoryController_getAll_Valid [OF parse_limit_100(1)]
        productController_getAll_Valid [OF parse_limit_100(2)])
  show ?thesis
    using limit_above_100_is_rejected [where q = "[''limit'' \<mapsto> ''200'']" and env = exampleEnv
        and db = shop]
      limit_above_100_is_rejected [where q = "[''limit'' \<mapsto> ''100'']" and env = exampleEnv
        and db = shop]
      limit_200_too_big a b
    by simp
qed

subsection \<open>The order of the category list\<close>

lemma sorted_orderRows_Desc:
  "sorted_wrt (\<lambda>a b. key b \<le> key a) (orderRows Desc key rows)"
proof -
  have "sorted (map key (sort_key key rows))" by simp
  then have "sorted_wrt (\<lambda>a b. key a \<le> key b) (sort_key key rows)"
    by (simp add: sorted_wrt_map)
  then show ?thesis
    by (simp add: orderRows_def sorted_wrt_rev)
qed

lemma findMany_keeps_order:
  assumes "findMany cond orderBy skip tk rows = Inr page"
    and "sorted_wrt R (orderBy (filter cond rows))"
  shows "sorted_wrt R page"
proof (cases "0 \<le> tk")
  case True
  with assms show ?thesis
    by (auto simp: findMany_def Let_def split: if_splits)
next
  case False
  from assms(2) have "sorted_wrt (\<lambda>a b. R b a) (rev (orderBy (filter cond rows)))"
    by (simp add: sorted_wrt_rev)
  then have "sorted_wrt (\<lambda>a b. R b a)
      (take (nat (- tk)) (drop (nat skip) (rev (orderBy (filter cond rows)))))"
    by simp
  then have "sorted_wrt R
      (rev (take (nat (- tk)) (drop (nat skip) (rev (orderBy (filter cond rows))))))"
    by (simp add: sorted_wrt_rev)
  with assms(1) False show ?thesis
    by (auto simp: findMany_def Let_def split: if_splits)
qed

lemma categoryService_findAll_sorted:
  assumes "categoryService_findAll db cq = Inr (rows, mt)"
  shows "sorted_wrt (\<lambda>a b. c_createdAt b \<le> c_createdAt a) rows"
proof -
  from assms have fm:
    "findMany (categoryMatches (categoryWhere cq)) (orderRows Desc c_createdAt)
       ((cq_page cq - 1) * cq_limit cq) (cq_limit cq) (categories db) = Inr rows"
    by (auto simp: categoryService_findAll_def Let_def split: sum.splits)
  show ?thesis
    by (rule findMany_keeps_order [where orderBy = "orderRows Desc c_createdAt", OF fm])
      (rule sorted_orderRows_Desc)
qed

lemma if_is_error:
  assumes "\<exists>msg code err. a = sendError msg code err"
    and "\<exists>msg code err. b = sendError msg code err"
  shows "\<exists>msg code err. (if c then a else b) = sendError msg code err"
  using assms by (cases c) simp_all

lemma errorHandler_is_error: "\<exists>msg code err. errorHandler env e = sendError msg code err"
proof (cases e)
  case (ZodError iss)
  then show ?thesis
    unfolding errorHandler_def sendBadRequest_def by simp blast
next
  case (Error name msg code target)
  show ?thesis
    unfolding Error errorHandler_def js_error.case sendBadRequest_def sendNotFound_def
      sendInternalError_def
    by (intro if_is_error) blast+
qed

lemma sendError_neq_sendSuccess: "sendError msg code err \<noteq> sendSuccess d msg' code' mt"
  by (simp add: sendError_def sendSuccess_def)

lemma categoryQuerySchema_cong:
  assumes "q' ''page'' = q ''page''" and "q' ''limit'' = q ''limit''" and "q' ''search'' = q ''search''"
  shows "categoryQuerySchema q' = categoryQuerySchema q"
  using assms by (simp add: categoryQuerySchema_def)

lemma parse_no_parameters:
  "categoryQuerySchema Map.empty = Valid \<lparr>cq_page = 1, cq_limit = 10, cq_search = None\<rparr>"
  by (simp add: categoryQuerySchema_def pageSchema_def limitSchema_def)

lemma parse_sort_by_price:
  "productQuerySchema [''sortBy'' \<mapsto> ''price''] = Valid \<lparr>pq_page = 1, pq_limit = 10, pq_search = None,
     pq_categoryId = None, pq_isActive = None, pq_minPrice = None, pq_maxPrice = None,
     pq_sortBy = SortPrice, pq_sortOrder = Desc\<rparr>"
  by code_simp

text \<open>
  C10. The categories that \<^verbatim>\<open>findAll\<close> returns are in descending order of \<^verbatim>\<open>createdAt\<close>,
  whatever the query; so are the categories of every list the controller sends. The
  category endpoint reads \<^verbatim>\<open>page\<close>, \<^verbatim>\<open>limit\<close> and \<^verbatim>\<open>search\<close> only: two queries that agree on
  these three get the same answer, so \<^verbatim>\<open>sortBy\<close> and \<^verbatim>\<open>sortOrder\<close> change nothing there,
  whereas the product query schema reads both into the validated query.
\<close>

theorem category_list_newest_first:
  "(\<forall>rows mt. categoryService_findAll db cq = Inr (rows, mt) \<longrightarrow>
       sorted_wrt (\<lambda>a b. c_createdAt b \<le> c_createdAt a) rows)
   \<and> (\<forall>rows msg code mt.
         snd (categoryController_getAll env db q) = sendSuccess (CategoryList rows) msg code mt \<longrightarrow>
         sorted_wrt (\<lambda>a b. c_createdAt b \<le> c_createdAt a) rows)
   \<and> (q' ''page'' = q ''page'' \<and> q' ''limit'' = q ''limit'' \<and> q' ''search'' = q ''search'' \<longrightarrow>
        categoryController_getAll env db q' = categoryController_getAll env db q)
   \<and> (\<forall>pq. productQuerySchema q = Valid pq \<longrightarrow>
         sortBySchema (q ''sortBy'') = Valid (pq_sortBy pq)
         \<and> sortOrderSchema (q ''sortOrder'') = Valid (pq_sortOrder pq))"
proof -
  have a: "sorted_wrt (\<lambda>a b. c_createdAt b \<le> c_createdAt a) rows"
    if "categoryService_findAll db cq = Inr (rows, mt)" for rows mt
    using that by (rule categoryService_findAll_sorted)
  have b: "sorted_wrt (\<lambda>a b. c_createdAt b \<le> c_createdAt a) rows"
    if r: "snd (categoryController_getAll env db q) = sendSuccess (CategoryList rows) msg code mt"
    for rows msg code mt
  proof (cases "categoryQuerySchema q")
    case (Invalid iss)
    with r show ?thesis
      by (simp add: categoryController_getAll_Invalid sendBadRequest_def sendError_neq_sendSuccess)
  next
    case (Valid query)
    show ?thesis
    proof (cases "categoryService_findAll db query")
      case (Inl e)
      with Valid r errorHandler_is_error [of env e] show ?thesis
        by (auto simp: categoryController_getAll_def sendError_def sendSuccess_def)
    next
      case (Inr res)
      obtain rows' mt' where res: "res = (rows', mt')" by (cases res)
      with Valid Inr r have "rows' = rows"
        by (simp add: categoryController_getAll_def sendSuccess_def)
      with Inr res categoryService_findAll_sorted show ?thesis by blast
    qed
  qed
  have c: "categoryController_getAll env db q' = categoryController_getAll env db q"
    if "q' ''page'' = q ''page'' \<and> q' ''limit'' = q ''limit'' \<and> q' ''search'' = q ''search''"
  proof -
    from that have "categoryQuerySchema q' = categoryQuerySchema q"
      by (intro categoryQuerySchema_cong) simp_all
    then show ?thesis by (simp add: categoryController_getAll_def)
  qed
  have d: "sortBySchema (q ''sortBy'') = Valid (pq_sortBy pq)
         \<and> sortOrderSchema (q ''sortOrder'') = Valid (pq_sortOrder pq)"
    if "productQuerySchema q = Valid pq" for pq
    using productQuerySchema_Valid [OF that] by simp
  from a have A: "\<forall>rows mt. categoryService_findAll db cq = Inr (rows, mt) \<longrightarrow>
       sorted_wrt (\<lambda>a b. c_createdAt b \<le> c_createdAt a) rows"
    by blast
  from b have B: "\<forall>rows msg code mt.
         snd (categoryController_getAll env db q) = sendSuccess (CategoryList rows) msg code mt \<longrightarrow>
         sorted_wrt (\<lambda>a b. c_createdAt b \<le> c_createdAt a) rows"
    by blast
  from c have C: "q' ''page'' = q ''page'' \<and> q' ''limit'' = q ''limit'' \<and> q' ''search'' = q ''search'' \<longrightarrow>
        categoryController_getAll env db q' = categoryController_getAll env db q"
    by blast
  from d have D: "\<forall>pq. productQuerySchema q = Valid pq \<longrightarrow>
         sortBySchema (q ''sortBy'') = Valid (pq_sortBy pq)
         \<and> sortOrderSchema (q ''sortOrder'') = Valid (pq_sortOrder pq)"
    by blast
  show ?thesis
    by (intro conjI) (rule A, rule B, rule C, rule D)
qed

theorem category_list_newest_first_witness:
  "snd (categoryController_getAll exampleEnv shop Map.empty) =
     sendSuccess (CategoryList [games, books]) ''Categories retrieved successfully'' 200
       (Some \<lparr>m_page = 1, m_limit = 10, m_total = 2, m_totalPages = Fin 1\<rparr>)
   \<and> sorted_wrt (\<lambda>a b. c_createdAt b \<le> c_createdAt a) [games, books]
   \<and> categoryController_getAll exampleEnv shop [''sortBy'' \<mapsto> ''name'', ''sortOrder'' \<mapsto> ''asc''] =
       categoryController_getAll exampleEnv shop Map.empty
   \<and> sortBySchema ([''sortBy'' \<mapsto> ''price''] ''sortBy'') = Valid SortPrice"
proof -
  have c: "\<lceil>(1::rat) / 5\<rceil> = 1"
    by (simp add: ceiling_eq_iff)
  have r: "snd (categoryController_getAll exampleEnv shop Map.empty) =
     sendSuccess (CategoryList [games, books]) ''Categories retrieved successfully'' 200
       (Some \<lparr>m_page = 1, m_limit = 10, m_total = 2, m_totalPages = Fin 1\<rparr>)"
    by (simp add: categoryController_getAll_Valid [OF parse_no_parameters] shop_def books_def
        games_def count_def categoryMatches_def categoryWhere_def truthy_def orderRows_def c)
  note t1 = category_list_newest_first [where env = exampleEnv and db = shop and q = Map.empty
        and q' = "[''sortBy'' \<mapsto> ''name'', ''sortOrder'' \<mapsto> ''asc'']" and cq = firstCategoryPage]
  note t2 = category_list_newest_first [where env = exampleEnv and db = shop
        and q = "[''sortBy'' \<mapsto> ''price'']" and q' = Map.empty and cq = firstCategoryPage]
  from t1 r have s: "sorted_wrt (\<lambda>a b. c_createdAt b \<le> c_createdAt a) [games, books]"
    by blast
  from t1 have e: "categoryController_getAll exampleEnv shop [''sortBy'' \<mapsto> ''name'', ''sortOrder'' \<mapsto> ''asc''] =
       categoryController_getAll exampleEnv shop Map.empty"
    by simp
  from t2 parse_sort_by_price have d: "sortBySchema ([''sortBy'' \<mapsto> ''price''] ''sortBy'') = Valid SortPrice"
    by simp
  from r s e d show ?thesis by blast
qed

subsection \<open>Partial updates\<close>

lemma find_after_update:
  assumes "find (\<lambda>x. key x = i) rows = Some x" and "\<And>y. key (f y) = key y"
  shows "find (\<lambda>x. key x = i) (map (\<lambda>y. if key y = i then f y else y) rows) = Some (f x)"
  using assms by (induction rows) (auto split: if_splits)

lemma others_after_update:
  assumes "\<And>y. key (f y) = key y"
  shows "filter (\<lambda>x. key x \<noteq> i) (map (\<lambda>y. if key y = i then f y else y) rows)
       = filter (\<lambda>x. key x \<noteq> i) rows"
  using assms by (induction rows) auto

lemma p_id_applyProductUpdate [simp]: "p_id (applyProductUpdate d q) = p_id q"
  by (simp add: applyProductUpdate_def)

lemma c_id_applyCategoryUpdate [simp]: "c_id (applyCategoryUpdate d k) = c_id k"
  by (simp add: applyCategoryUpdate_def)

lemma productService_update_data:
  "productService_update db i inp =
     updateProduct db i
       \<lparr>d_name = up_name inp, d_description = up_description inp, d_price = up_price inp,
        d_stock = up_stock inp, d_sku = up_sku inp, d_isActive = up_isActive inp,
        d_categoryId = up_categoryId inp\<rparr>"
  by (simp add: productService_update_def)

lemma categoryService_update_data:
  "categoryService_update db i inp =
     updateCategory db i \<lparr>e_name = uc_name inp, e_description = uc_description inp\<rparr>"
  by (simp add: categoryService_update_def)

lemma updateProduct_Inr:
  assumes "find (\<lambda>p. p_id p = i) (products db) = Some p"
    and "updateProduct db i d = Inr (db', r)"
  shows "r = applyProductUpdate d p"
    and "db' = db\<lparr>products := map (\<lambda>q. if p_id q = i then applyProductUpdate d q else q) (products db)\<rparr>"
  using assms by (auto simp: updateProduct_def split: if_splits)

lemma updateProduct_succeeds:
  assumes "find (\<lambda>p. p_id p = i) (products db) = Some p"
    and "case d_sku d of None \<Rightarrow> True
         | Some s \<Rightarrow> \<not> (\<exists>q \<in> set (products db). p_id q \<noteq> i \<and> p_sku q = s)"
    and "case d_categoryId d of None \<Rightarrow> True
         | Some k \<Rightarrow> \<exists>c \<in> set (categories db). c_id c = k"
  shows "\<exists>db' r. updateProduct db i d = Inr (db', r)"
  using assms by (auto simp: updateProduct_def split: option.splits)

lemma updateCategory_Inr:
  assumes "find (\<lambda>c. c_id c = i) (categories db) = Some c"
    and "updateCategory db i d = Inr (db', r)"
  shows "r = applyCategoryUpdate d c"
    and "db' = db\<lparr>categories := map (\<lambda>k. if c_id k = i then applyCategoryUpdate d k else k) (categories db)\<rparr>"
  using assms by (auto simp: updateCategory_def split: if_splits)

lemma updateCategory_succeeds:
  assumes "find (\<lambda>c. c_id c = i) (categories db) = Some c"
    and "case e_name d of None \<Rightarrow> True
         | Some n \<Rightarrow> \<not> (\<exists>k \<in> set (categories db). c_id k \<noteq> i \<and> c_name k = n)"
  shows "\<exists>db' r. updateCategory db i d = Inr (db', r)"
  using assms by (auto simp: updateCategory_def split: option.splits)

lemma find_examples:
  "productService_findById shop ''aaaaaaaa-aaaa-4aaa-8aaa-aaaaaaaaaaaa'' = Some novel"
  "categoryService_findById shop ''22222222-2222-4222-8222-222222222222'' = Some games"
  by (simp_all add: productService_findById_def categoryService_findById_def shop_def novel_def
      books_def games_def)

text \<open>
  C4. \<^verbatim>\<open>update\<close> of an existing product or category, when it succeeds, returns the row with
  each column of the input written where the input has it (\<^verbatim>\<open>null\<close> for a description given
  as \<^verbatim>\<open>null\<close>) and as before where the input leaves it out; \<^verbatim>\<open>id\<close> and the two timestamps are
  as before, the row is the one now stored under the id, and every other row of the two
  tables is as before. It succeeds whenever the new sku (or name) is not that of another row
  and the new category exists, which is what the controllers check first.
\<close>

theorem update_writes_supplied_fields:
  assumes "productService_findById db i = Some p" and "categoryService_findById db j = Some c"
  shows
   "(\<forall>db' r. productService_update db i inp = Inr (db', r) \<longrightarrow>
        p_name r = (case up_name inp of None \<Rightarrow> p_name p | Some v \<Rightarrow> v)
      \<and> p_description r =
          (case up_description inp of None \<Rightarrow> p_description p | Some None \<Rightarrow> None
           | Some (Some v) \<Rightarrow> Some v)
      \<and> p_price r = (case up_price inp of None \<Rightarrow> p_price p | Some v \<Rightarrow> v)
      \<and> p_stock r = (case up_stock inp of None \<Rightarrow> p_stock p | Some v \<Rightarrow> v)
      \<and> p_sku r = (case up_sku inp of None \<Rightarrow> p_sku p | Some v \<Rightarrow> v)
      \<and> p_isActive r = (case up_isActive inp of None \<Rightarrow> p_isActive p | Some v \<Rightarrow> v)
      \<and> p_categoryId r = (case up_categoryId inp of None \<Rightarrow> p_categoryId p | Some v \<Rightarrow> v)
      \<and> p_id r = p_id p \<and> p_createdAt r = p_createdAt p \<and> p_updatedAt r = p_updatedAt p
      \<and> productService_findById db' i = Some r
      \<and> filter (\<lambda>q. p_id q \<noteq> i) (products db') = filter (\<lambda>q. p_id q \<noteq> i) (products db)
      \<and> categories db' = categories db)
    \<and> ((case up_sku inp of None \<Rightarrow> True
          | Some s \<Rightarrow> \<not> (\<exists>q \<in> set (products db). p_id q \<noteq> i \<and> p_sku q = s))
        \<and> (case up_categoryId inp of None \<Rightarrow> True
            | Some k \<Rightarrow> categoryService_findById db k \<noteq> None)
        \<longrightarrow> (\<exists>db' r. productService_update db i inp = Inr (db', r)))
    \<and> (\<forall>db' r. categoryService_update db j cinp = Inr (db', r) \<longrightarrow>
        c_name r = (case uc_name cinp of None \<Rightarrow> c_name c | Some v \<Rightarrow> v)
      \<and> c_description r =
          (case uc_description cinp of None \<Rightarrow> c_description c | Some None \<Rightarrow> None
           | Some (Some v) \<Rightarrow> Some v)
      \<and> c_id r = c_id c \<and> c_createdAt r = c_createdAt c \<and> c_updatedAt r = c_updatedAt c
      \<and> categoryService_findById db' j = Some r
      \<and> filter (\<lambda>k. c_id k \<noteq> j) (categories db') = filter (\<lambda>k. c_id k \<noteq> j) (categories db)
      \<and> products db' = products db)
    \<and> ((case uc_name cinp of None \<Rightarrow> True
          | Some n \<Rightarrow> \<not> (\<exists>k \<in> set (categories db). c_id k \<noteq> j \<and> c_name k = n))
        \<longrightarrow> (\<exists>db' r. categoryService_update db j cinp = Inr (db', r)))"
proof -
  let ?d = "\<lparr>d_name = up_name inp, d_description = up_description inp, d_price = up_price inp,
        d_stock = up_stock inp, d_sku = up_sku inp, d_isActive = up_isActive inp,
        d_categoryId = up_categoryId inp\<rparr>"
  let ?e = "\<lparr>e_name = uc_name cinp, e_description = uc_description cinp\<rparr>"
  from assms have fp: "find (\<lambda>p. p_id p = i) (products db) = Some p"
    and fc: "find (\<lambda>c. c_id c = j) (categories db) = Some c"
    by (simp_all add: productService_findById_def categoryService_findById_def)
  have A: "\<forall>db' r. productService_update db i inp = Inr (db', r) \<longrightarrow>
        p_name r = (case up_name inp of None \<Rightarrow> p_name p | Some v \<Rightarrow> v)
      \<and> p_description r =
          (case up_description inp of None \<Rightarrow> p_description p | Some None \<Rightarrow> None
           | Some (Some v) \<Rightarrow> Some v)
      \<and> p_price r = (case up_price inp of None \<Rightarrow> p_price p | Some v \<Rightarrow> v)
      \<and> p_stock r = (case up_stock inp of None \<Rightarrow> p_stock p | Some v \<Rightarrow> v)
      \<and> p_sku r = (case up_sku inp of None \<Rightarrow> p_sku p | Some v \<Rightarrow> v)
      \<and> p_isActive r = (case up_isActive inp of None \<Rightarrow> p_isActive p | Some v \<Rightarrow> v)
      \<and> p_categoryId r = (case up_categoryId inp of None \<Rightarrow> p_categoryId p | Some v \<Rightarrow> v)
      \<and> p_id r = p_id p \<and> p_createdAt r = p_createdAt p \<and> p_updatedAt r = p_updatedAt p
      \<and> productService_findById db' i = Some r
      \<and> filter (\<lambda>q. p_id q \<noteq> i) (products db') = filter (\<lambda>q. p_id q \<noteq> i) (products db)
      \<and> categories db' = categories db"
  proof (intro allI impI)
    fix db' r
    assume "productService_update db i inp = Inr (db', r)"
    then have u: "updateProduct db i ?d = Inr (db', r)"
      by (simp add: productService_update_data)
    note r = updateProduct_Inr(1) [OF fp u] and db' = updateProduct_Inr(2) [OF fp u]
    have found: "productService_findById db' i = Some r"
      unfolding productService_findById_def db' r
      using find_after_update [OF fp, of "applyProductUpdate ?d"] by simp
    have rest: "filter (\<lambda>q. p_id q \<noteq> i) (products db') = filter (\<lambda>q. p_id q \<noteq> i) (products db)"
      unfolding db' using others_after_update [of p_id "applyProductUpdate ?d" i "products db"]
      by simp
    have cols: "p_name r = (case up_name inp of None \<Rightarrow> p_name p | Some v \<Rightarrow> v)
      \<and> p_description r =
          (case up_description inp of None \<Rightarrow> p_description p | Some None \<Rightarrow> None
           | Some (Some v) \<Rightarrow> Some v)
      \<and> p_price r = (case up_price inp of None \<Rightarrow> p_price p | Some v \<Rightarrow> v)
      \<and> p_stock r = (case up_stock inp of None \<Rightarrow> p_stock p | Some v \<Rightarrow> v)
      \<and> p_sku r = (case up_sku inp of None \<Rightarrow> p_sku p | Some v \<Rightarrow> v)
      \<and> p_isActive r = (case up_isActive inp of None \<Rightarrow> p_isActive p | Some v \<Rightarrow> v)
      \<and> p_categoryId r = (case up_categoryId inp of None \<Rightarrow> p_categoryId p | Some v \<Rightarrow> v)
      \<and> p_id r = p_id p \<and> p_createdAt r = p_createdAt p \<and> p_updatedAt r = p_updatedAt p"
      unfolding r by (simp add: applyProductUpdate_def writeColumn_def split: option.splits)
    have cats: "categories db' = categories db"
      unfolding db' by simp
    from cols found rest cats show "p_name r = (case up_name inp of None \<Rightarrow> p_name p | Some v \<Rightarrow> v)
      \<and> p_description r =
          (case up_description inp of None \<Rightarrow> p_description p | Some None \<Rightarrow> None
           | Some (Some v) \<Rightarrow> Some v)
      \<and> p_price r = (case up_price inp of None \<Rightarrow> p_price p | Some v \<Rightarrow> v)
      \<and> p_stock r = (case up_stock inp of None \<Rightarrow> p_stock p | Some v \<Rightarrow> v)
      \<and> p_sku r = (case up_sku inp of None \<Rightarrow> p_sku p | Some v \<Rightarrow> v)
      \<and> p_isActive r = (case up_isActive inp of None \<Rightarrow> p_isActive p | Some v \<Rightarrow> v)
      \<and> p_categoryId r = (case up_categoryId inp of None \<Rightarrow> p_categoryId p | Some v \<Rightarrow> v)
      \<and> p_id r = p_id p \<and> p_createdAt r = p_createdAt p \<and> p_updatedAt r = p_updatedAt p
      \<and> productService_findById db' i = Some r
      \<and> filter (\<lambda>q. p_id q \<noteq> i) (products db') = filter (\<lambda>q. p_id q \<noteq> i) (products db)
      \<and> categories db' = categories db"
      by (simp only: simp_thms)
  qed
  have B: "(case up_sku inp of None \<Rightarrow> True
          | Some s \<Rightarrow> \<not> (\<exists>q \<in> set (products db). p_id q \<noteq> i \<and> p_sku q = s))
        \<and> (case up_categoryId inp of None \<Rightarrow> True
            | Some k \<Rightarrow> categoryService_findById db k \<noteq> None)
        \<longrightarrow> (\<exists>db' r. productService_update db i inp = Inr (db', r))"
  proof
    assume h: "(case up_sku inp of None \<Rightarrow> True
          | Some s \<Rightarrow> \<not> (\<exists>q \<in> set (products db). p_id q \<noteq> i \<and> p_sku q = s))
        \<and> (case up_categoryId inp of None \<Rightarrow> True
            | Some k \<Rightarrow> categoryService_findById db k \<noteq> None)"
    then have "case d_categoryId ?d of None \<Rightarrow> True
         | Some k \<Rightarrow> \<exists>c \<in> set (categories db). c_id c = k"
      by (auto simp: categoryService_findById_def find_Some_iff split: option.splits)
    moreover from h have "case d_sku ?d of None \<Rightarrow> True
         | Some s \<Rightarrow> \<not> (\<exists>q \<in> set (products db). p_id q \<noteq> i \<and> p_sku q = s)"
      by simp
    ultimately show "\<exists>db' r. productService_update db i inp = Inr (db', r)"
      unfolding productService_update_data using updateProduct_succeeds [OF fp] by blast
  qed
  have C: "\<forall>db' r. categoryService_update db j cinp = Inr (db', r) \<longrightarrow>
        c_name r = (case uc_name cinp of None \<Rightarrow> c_name c | Some v \<Rightarrow> v)
      \<and> c_description r =
          (case uc_description cinp of None \<Rightarrow> c_description c | Some None \<Rightarrow> None
           | Some (Some v) \<Rightarrow> Some v)
      \<and> c_id r = c_id c \<and> c_createdAt r = c_createdAt c \<and> c_updatedAt r = c_updatedAt c
      \<and> categoryService_findById db' j = Some r
      \<and> filter (\<lambda>k. c_id k \<noteq> j) (categories db') = filter (\<lambda>k. c_id k \<noteq> j) (categories db)
      \<and> products db' = products db"
  proof (intro allI impI)
    fix db' r
    assume "categoryService_update db j cinp = Inr (db', r)"
    then have u: "updateCategory db j ?e = Inr (db', r)"
      by (simp add: categoryService_update_data)
    note r = updateCategory_Inr(1) [OF fc u] and db' = updateCategory_Inr(2) [OF fc u]
    have found: "categoryService_findById db' j = Some r"
      unfolding categoryService_findById_def db' r
      using find_after_update [OF fc, of "applyCategoryUpdate ?e"] by simp
    have rest: "filter (\<lambda>k. c_id k \<noteq> j) (categories db') = filter (\<lambda>k. c_id k \<noteq> j) (categories db)"
      unfolding db' using others_after_update [of c_id "applyCategoryUpdate ?e" j "categories db"]
      by simp
    have cols: "c_name r = (case uc_name cinp of None \<Rightarrow> c_name c | Some v \<Rightarrow> v)
      \<and> c_description r =
          (case uc_description cinp of None \<Rightarrow> c_description c | Some None \<Rightarrow> None
           | Some (Some v) \<Rightarrow> Some v)
      \<and> c_id r = c_id c \<and> c_createdAt r = c_createdAt c \<and> c_updatedAt r = c_updatedAt c"
      unfolding r by (simp add: applyCategoryUpdate_def writeColumn_def split: option.splits)
    have prods: "products db' = products db"
      unfolding db' by simp
    from cols found rest prods show "c_name r = (case uc_name cinp of None \<Rightarrow> c_name c | Some v \<Rightarrow> v)
      \<and> c_description r =
          (case uc_description cinp of None \<Rightarrow> c_description c | Some None \<Rightarrow> None
           | Some (Some v) \<Rightarrow> Some v)
      \<and> c_id r = c_id c \<and> c_createdAt r = c_createdAt c \<and> c_updatedAt r = c_updatedAt c
      \<and> categoryService_findById db' j = Some r
      \<and> filter (\<lambda>k. c_id k \<noteq> j) (categories db') = filter (\<lambda>k. c_id k \<noteq> j) (categories db)
      \<and> products db' = products db"
      by (simp only: simp_thms)
  qed
  have D: "(case uc_name cinp of None \<Rightarrow> True
          | Some n \<Rightarrow> \<not> (\<exists>k \<in> set (categories db). c_id k \<noteq> j \<and> c_name k = n))
        \<longrightarrow> (\<exists>db' r. categoryService_update db j cinp = Inr (db', r))"
    unfolding categoryService_update_data using updateCategory_succeeds [OF fc, of ?e] by simp
  show ?thesis
    by (intro conjI) (rule A, rule B, rule C, rule D)
qed

theorem update_writes_supplied_fields_witness:
  "(\<exists>db' r. productService_update shop ''aaaaaaaa-aaaa-4aaa-8aaa-aaaaaaaaaaaa'' renameAndClear = Inr (db', r)
      \<and> p_name r = ''Atlas'' \<and> p_description r = None \<and> p_price r = 25 / 2 \<and> p_stock r = 3
      \<and> p_sku r = ''X-1'' \<and> p_isActive r \<and> p_createdAt r = 15 \<and> p_updatedAt r = 15)
   \<and> (\<exists>db' r. categoryService_update shop ''22222222-2222-4222-8222-222222222222'' clearDescription = Inr (db', r)
      \<and> c_name r = ''Games'' \<and> c_description r = None \<and> c_createdAt r = 20)"
proof -
  note t = update_writes_supplied_fields [OF find_examples, where inp = renameAndClear
      and cinp = clearDescription]
  from t obtain db1 r1 where
    u1: "productService_update shop ''aaaaaaaa-aaaa-4aaa-8aaa-aaaaaaaaaaaa'' renameAndClear = Inr (db1, r1)"
    by (auto simp: renameAndClear_def)
  from t obtain db2 r2 where
    u2: "categoryService_update shop ''22222222-2222-4222-8222-222222222222'' clearDescription = Inr (db2, r2)"
    by (auto simp: clearDescription_def)
  from t u1 have "p_name r1 = ''Atlas'' \<and> p_description r1 = None \<and> p_price r1 = 25 / 2 \<and> p_stock r1 = 3
      \<and> p_sku r1 = ''X-1'' \<and> p_isActive r1 \<and> p_createdAt r1 = 15 \<and> p_updatedAt r1 = 15"
    by (simp add: renameAndClear_def novel_def)
  moreover from t u2 have "c_name r2 = ''Games'' \<and> c_description r2 = None \<and> c_createdAt r2 = 20"
    by (simp add: clearDescription_def games_def)
  ultimately show ?thesis using u1 u2 by blast
qed

subsection \<open>The empty update\<close>

lemma applyProductUpdate_nothing:
  "applyProductUpdate \<lparr>d_name = None, d_description = None, d_price = None, d_stock = None,
       d_sku = None, d_isActive = None, d_categoryId = None\<rparr> q = q"
  by (simp add: applyProductUpdate_def writeColumn_def)

lemma applyCategoryUpdate_nothing:
  "applyCategoryUpdate \<lparr>e_name = None, e_description = None\<rparr> k = k"
  by (simp add: applyCategoryUpdate_def writeColumn_def)

lemma map_update_nothing:
  "map (\<lambda>q. if P q then applyProductUpdate \<lparr>d_name = None, d_description = None, d_price = None,
       d_stock = None, d_sku = None, d_isActive = None, d_categoryId = None\<rparr> q else q) rows = rows"
  "map (\<lambda>k. if Q k then applyCategoryUpdate \<lparr>e_name = None, e_description = None\<rparr> k else k) cats
     = cats"
  by (induction rows, simp_all add: applyProductUpdate_nothing)
    (induction cats, simp_all add: applyCategoryUpdate_nothing)

text \<open>
  C8. \<^verbatim>\<open>update\<close> of an existing product or category with an input that has no property
  succeeds, leaves the database as it was and returns the row as it was, timestamps
  included.
\<close>

theorem empty_update_is_noop:
  assumes "productService_findById db i = Some p" and "categoryService_findById db j = Some c"
  shows "productService_update db i
           \<lparr>up_name = None, up_description = None, up_price = None, up_stock = None,
            up_sku = None, up_isActive = None, up_categoryId = None\<rparr> = Inr (db, p)
       \<and> categoryService_update db j \<lparr>uc_name = None, uc_description = None\<rparr> = Inr (db, c)"
  using assms
  by (simp add: productService_update_def categoryService_update_def updateProduct_def
      updateCategory_def productService_findById_def categoryService_findById_def
      map_update_nothing applyProductUpdate_nothing applyCategoryUpdate_nothing)

theorem empty_update_is_noop_witness:
  "productService_update shop ''aaaaaaaa-aaaa-4aaa-8aaa-aaaaaaaaaaaa''
           \<lparr>up_name = None, up_description = None, up_price = None, up_stock = None,
            up_sku = None, up_isActive = None, up_categoryId = None\<rparr> = Inr (shop, novel)
   \<and> categoryService_update shop ''22222222-2222-4222-8222-222222222222''
        \<lparr>uc_name = None, uc_description = None\<rparr> = Inr (shop, games)"
  by (rule empty_update_is_noop [OF find_examples])

subsection \<open>Further properties of the product endpoints\<close>

lemma pricePipe_Fin:
  "pricePipe (Fin r) =
     (if 0 < r \<and> r \<le> 9999999999 / 100 then Valid r
      else Invalid ((if 0 < r then [] else [Issue ''price'' ''Price must be a positive number''])
                    @ (if 9999999999 / 100 < r then [Issue ''price'' ''Price is too large''] else [])))"
  by (auto simp: pricePipe_def isNaN_def numGreater_def)

lemma parseFloat_examples:
  "parseFloat ''12.50'' = Fin (25 / 2)"
  "parseFloat ''-3'' = Fin (- 3)"
  "parseFloat ''abc'' = NaN"
  by code_simp+

lemma parse_atlasBody:
  "createProductSchema atlasBody =
     Inr (Valid \<lparr>cp_name = ''Atlas'', cp_description = None, cp_price = 25 / 2, cp_stock = 0,
                 cp_sku = ''X-2'', cp_isActive = True,
                 cp_categoryId = ''11111111-1111-4111-8111-111111111111''\<rparr>)"
  by code_simp

text \<open>
  The price of a product body: a string is read by \<^verbatim>\<open>parseFloat\<close> and a number is taken as
  it is; a value that is positive and at most 99999999.99 is the validated price, any other
  number is a validation issue, and a string that \<^verbatim>\<open>parseFloat\<close> reads as \<^verbatim>\<open>NaN\<close> makes the
  schema throw.
\<close>

theorem price_is_coerced_and_bounded:
  "(parseFloat s = Fin r \<and> 0 < r \<and> r \<le> 9999999999 / 100 \<longrightarrow>
      priceSchema (Some (JString s)) = Inr (Valid r))
   \<and> (parseFloat s = Fin r \<and> \<not> (0 < r \<and> r \<le> 9999999999 / 100) \<longrightarrow>
      (\<exists>iss. iss \<noteq> [] \<and> priceSchema (Some (JString s)) = Inr (Invalid iss)))
   \<and> (0 < r \<and> r \<le> 9999999999 / 100 \<longrightarrow> priceSchema (Some (JNumber (Fin r))) = Inr (Valid r))
   \<and> (\<not> (0 < r \<and> r \<le> 9999999999 / 100) \<longrightarrow>
      (\<exists>iss. iss \<noteq> [] \<and> priceSchema (Some (JNumber (Fin r))) = Inr (Invalid iss)))
   \<and> (parseFloat s = NaN \<longrightarrow>
      priceSchema (Some (JString s)) = Inl (Error ''Error'' ''Invalid price format'' None None))"
  by (auto simp: priceSchema_def priceTransform_def isNaN_def pricePipe_Fin)

theorem price_is_coerced_and_bounded_witness:
  "priceSchema (Some (JString ''12.50'')) = Inr (Valid (25 / 2))
   \<and> (\<exists>iss. iss \<noteq> [] \<and> priceSchema (Some (JString ''-3'')) = Inr (Invalid iss))
   \<and> priceSchema (Some (JNumber (Fin 5))) = Inr (Valid 5)
   \<and> (\<exists>iss. iss \<noteq> [] \<and> priceSchema (Some (JNumber (Fin 100000000))) = Inr (Invalid iss))
   \<and> priceSchema (Some (JString ''abc'')) = Inl (Error ''Error'' ''Invalid price format'' None None)"
  using price_is_coerced_and_bounded [where s = "''12.50''" and r = "25 / 2"]
    price_is_coerced_and_bounded [where s = "''-3''" and r = "- 3"]
    price_is_coerced_and_bounded [where s = "''abc''" and r = 5]
    price_is_coerced_and_bounded [where s = "''abc''" and r = 100000000]
    parseFloat_examples
  by simp

text \<open>
  A product body that passes validation, names an existing category and has an sku
  that no product has is answered 201 with the new row, which is added to the table: its
  seven columns are those of the validated input (an absent description is \<^verbatim>\<open>null\<close>), its
  \<^verbatim>\<open>id\<close> and its two timestamps are those the database gives.
\<close>

theorem create_stores_the_input:
  assumes "createProductSchema b = Inr (Valid inp)"
    and "categoryService_findById db (cp_categoryId inp) \<noteq> None"
    and "productService_findBySku db (cp_sku inp) = None"
    and "productService_findById db (newId env) = None"
  shows "productController_create env db b =
     (db\<lparr>products := products db @
          [\<lparr>p_id = newId env, p_name = cp_name inp,
            p_description = (case cp_description inp of Some (Some s) \<Rightarrow> Some s | _ \<Rightarrow> None),
            p_price = cp_price inp, p_stock = cp_stock inp, p_sku = cp_sku inp,
            p_isActive = cp_isActive inp, p_categoryId = cp_categoryId inp,
            p_createdAt = now env, p_updatedAt = now env\<rparr>]\<rparr>,
      sendCreated
        (ProductData
          \<lparr>p_id = newId env, p_name = cp_name inp,
            p_description = (case cp_description inp of Some (Some s) \<Rightarrow> Some s | _ \<Rightarrow> None),
            p_price = cp_price inp, p_stock = cp_stock inp, p_sku = cp_sku inp,
            p_isActive = cp_isActive inp, p_categoryId = cp_categoryId inp,
            p_createdAt = now env, p_updatedAt = now env\<rparr>)
        ''Product created successfully'')"
proof -
  from assms(2) have c: "\<exists>c \<in> set (categories db). c_id c = cp_categoryId inp"
    by (auto simp: categoryService_findById_def find_None_iff)
  from assms(3) have s: "\<not> (\<exists>p \<in> set (products db). p_sku p = cp_sku inp)"
    by (auto simp: productService_findBySku_def find_None_iff)
  from assms(4) have i: "\<not> (\<exists>p \<in> set (products db). p_id p = newId env)"
    by (auto simp: productService_findById_def find_None_iff)
  from assms(2) obtain cat where "categoryService_findById db (cp_categoryId inp) = Some cat"
    by auto
  with assms(1,3) c s i show ?thesis
    by (simp add: productController_create_def productService_create_def insertProduct_def)
qed

theorem create_stores_the_input_witness:
  "productController_create exampleEnv shop atlasBody =
     (shop\<lparr>products := [novel, atlas]\<rparr>,
      sendCreated (ProductData atlas) ''Product created successfully'')"
proof -
  have "categoryService_findById shop ''11111111-1111-4111-8111-111111111111'' \<noteq> None"
    and "productService_findBySku shop ''X-2'' = None"
    and "productService_findById shop (newId exampleEnv) = None"
    by (simp_all add: categoryService_findById_def productService_findBySku_def
        productService_findById_def shop_def books_def games_def novel_def exampleEnv_def)
  with create_stores_the_input [OF parse_atlasBody, of shop exampleEnv] show ?thesis
    by (simp add: shop_def atlas_def exampleEnv_def)
qed

text \<open>
  With \<^verbatim>\<open>minPrice\<close> and \<^verbatim>\<open>maxPrice\<close> given, the filter of the product list holds only of
  products whose price lies between the two, bounds included; with no other filter it holds
  of exactly those.
\<close>

theorem price_filter_is_inclusive:
  "(pq_minPrice q = Some (Fin lo) \<and> pq_maxPrice q = Some (Fin hi)
      \<and> productMatches (productWhere q) p \<longrightarrow> lo \<le> p_price p \<and> p_price p \<le> hi)
   \<and> (pq_search q = None \<and> pq_categoryId q = None \<and> pq_isActive q = None
      \<and> pq_minPrice q = Some (Fin lo) \<and> pq_maxPrice q = Some (Fin hi) \<longrightarrow>
        productMatches (productWhere q) p = (lo \<le> p_price p \<and> p_price p \<le> hi))"
  by (auto simp: productMatches_def productWhere_def numLessEq_def truthy_def Let_def
      split: option.splits)

theorem price_filter_is_inclusive_witness:
  "productMatches (productWhere priceRange) novel
   \<and> \<not> productMatches (productWhere priceRange) (novel\<lparr>p_price := 13\<rparr>)"
  using price_filter_is_inclusive [where q = priceRange and lo = 10 and hi = "25 / 2" and p = novel]
    price_filter_is_inclusive [where q = priceRange and lo = 10 and hi = "25 / 2"
      and p = "novel\<lparr>p_price := 13\<rparr>"]
  by (simp add: priceRange_def novel_def)

end
